theory Spec2Isabelle
  imports Complex_Main "HOL-Library.Log_Nat" "HOL-Library.AList"
begin

section \<open>Numbers\<close>

text \<open>
  JavaScript numbers are IEEE-754 doubles. Quantities of the engine whose values are
  integers are modelled by \<^typ>\<open>int\<close>, quantities that may be fractional (the move
  interval, frame deltas, random draws) by \<^typ>\<open>rat\<close>; a double is a dyadic rational.
  The result of an arithmetic operation is rounded to the nearest double by \<open>fl\<close>: 53
  significant bits, ties to the even significand, gradual underflow below \<open>2^-1022\<close>.
  Magnitudes of \<open>2^1024\<close> and more (Infinity) are outside the model.

  The score grows with the level and the level with the score, so both pass \<open>2^53\<close> in a
  long game: every operation on them is rounded (\<open>double_int\<close> for a result that is an
  integer). Grid coordinates, lives, the combo and the counters that go up by one for each
  event (food eaten, power-ups collected, frames, clock readings in milliseconds) stay far
  below \<open>2^53\<close>, where the operations on integers are exact and are written without
  \<open>fl\<close>. Multiplying the move interval by \<open>2\<close> or \<open>0.5\<close> and taking
  \<open>Math.max\<close>/\<open>Math.min\<close> is exact on doubles as well.
\<close>

definition ilog2 :: "rat \<Rightarrow> int" where
  \<comment> \<open>for \<open>r > 0\<close>: the integer \<open>e\<close> with \<open>2^e \<le> r < 2^(e+1)\<close>\<close>
  "ilog2 r = (case quotient_of r of (p, q) \<Rightarrow>
     (let d = bitlen p - bitlen q
      in if 2 powi d \<le> r then d else d - 1))"

definition round_half_even :: "rat \<Rightarrow> int" where
  "round_half_even q = (let n = \<lfloor>q\<rfloor>; d = q - of_int n
     in if d < 1 / 2 then n else if 1 / 2 < d then n + 1 else if even n then n else n + 1)"

definition fl :: "rat \<Rightarrow> rat" where
  "fl r = (if r = 0 then 0 else
     (let e = max (ilog2 \<bar>r\<bar>) (- 1022); u = 2 powi (e - 52)
      in of_int (round_half_even (r / u)) * u))"

definition double_int :: "rat \<Rightarrow> int" where
  \<comment> \<open>the double nearest to \<open>r\<close>, for an \<open>r\<close> that is an integer: an integer again\<close>
  "double_int r = \<lfloor>fl r\<rfloor>"

definition js_rem :: "int \<Rightarrow> int \<Rightarrow> int" where
  \<comment> \<open>the operator \<^verbatim>\<open>%\<close> on integers, divisor not zero: the sign of the dividend\<close>
  "js_rem a b = sgn a * (\<bar>a\<bar> mod \<bar>b\<bar>)"

section \<open>Data model (types/index.ts)\<close>

type_synonym Position = "int \<times> int"
type_synonym Direction = "int \<times> int"

datatype GameState = MENU | PLAYING | PAUSED | GAME_OVER | LOADING
datatype GameMode = CLASSIC | ARCADE | SURVIVAL | CHALLENGE | MULTIPLAYER
datatype Difficulty = EASY | NORMAL | HARD | INSANE
datatype Theme = NEON | CLASSIC_THEME | RAINBOW | FIRE | ICE | MATRIX | CYBERPUNK
datatype PowerUpType = SPEED | SLOW | GHOST | INVINCIBLE | DOUBLE_POINTS | SHRINK | MAGNET | FREEZE
datatype FoodType = food_normal | food_bonus | food_golden
datatype ObstacleType = obstacle_static | obstacle_moving

text \<open>
  An identifier is the string \<^verbatim>\<open>`${Date.now()}-${Math.random().toString(36).substr(2, 9)}`\<close>;
  it is represented by the clock reading and the first nine base-36 digits of the random
  fraction, the two values the string is printed from.
\<close>

type_synonym Id = "int \<times> int"

record PowerUp =
  pu_id :: Id
  pu_type :: PowerUpType
  pu_position :: Position
  pu_lifetime :: int
  pu_createdAt :: int

record ActivePowerUp =
  ap_type :: PowerUpType
  ap_duration :: int
  ap_startTime :: int

record Obstacle =
  ob_id :: Id
  ob_position :: Position
  ob_type :: ObstacleType
  ob_movingDirection :: "Direction option"

record Food =
  food_position :: Position
  food_value :: int
  food_type :: FoodType

record Snake =
  segments :: "Position list"
  direction :: Direction
  nextDirection :: Direction
  snake_length :: int

record GameStats =
  score :: int
  level :: int
  lives :: int
  combo :: int
  foodEaten :: int
  powerUpsCollected :: int
  timeElapsed :: rat
  highScore :: int

record GameConfig =
  gridSize :: int
  cellSize :: int
  initialSpeed :: rat
  speedIncrement :: rat
  maxSpeed :: rat
  difficulty :: Difficulty
  theme :: Theme
  mode :: GameMode
  soundEnabled :: bool
  musicEnabled :: bool

datatype CollisionType = c_none | c_wall | c_self | c_obstacle | c_food | c_powerup

datatype CollisionData = FoodData Food | PowerUpData PowerUp | ObstacleData Obstacle

record CollisionResult =
  ctype :: CollisionType
  cposition :: "Position option"
  cdata :: "CollisionData option"

datatype GameEvent =
    FOOD_EATEN Position int
  | POWER_UP_COLLECTED PowerUp
  | COLLISION string
  | LEVEL_UP int
  | GAME_OVER_EVENT GameStats

section \<open>Constants (utils/constants.ts)\<close>

record SpeedConfig =
  sc_initial :: rat
  sc_increment :: rat
  sc_min :: rat

fun SPEED_CONFIG :: "Difficulty \<Rightarrow> SpeedConfig" where
  "SPEED_CONFIG EASY = \<lparr>sc_initial = 150, sc_increment = 3, sc_min = 80\<rparr>"
| "SPEED_CONFIG NORMAL = \<lparr>sc_initial = 100, sc_increment = 4, sc_min = 50\<rparr>"
| "SPEED_CONFIG HARD = \<lparr>sc_initial = 70, sc_increment = 5, sc_min = 30\<rparr>"
| "SPEED_CONFIG INSANE = \<lparr>sc_initial = 40, sc_increment = 3, sc_min = 15\<rparr>"

definition INITIAL_SNAKE_LENGTH :: int where "INITIAL_SNAKE_LENGTH = 3"
definition COMBO_TIME_WINDOW :: int where "COMBO_TIME_WINDOW = 2000"
definition MAX_COMBO :: int where "MAX_COMBO = 20"
definition POWER_UP_DURATION :: int where "POWER_UP_DURATION = 5000"
definition POWER_UP_SPAWN_CHANCE :: rat where "POWER_UP_SPAWN_CHANCE = fl (2 / 10)"
definition BASE_FOOD_SCORE :: int where "BASE_FOOD_SCORE = 10"
definition LEVEL_UP_THRESHOLD :: int where "LEVEL_UP_THRESHOLD = 100"

fun INITIAL_LIVES :: "Difficulty \<Rightarrow> int" where
  "INITIAL_LIVES EASY = 5"
| "INITIAL_LIVES NORMAL = 3"
| "INITIAL_LIVES HARD = 2"
| "INITIAL_LIVES INSANE = 1"

record ObstacleConfig =
  oc_count :: int
  oc_movingChance :: rat

fun OBSTACLE_CONFIG :: "GameMode \<Rightarrow> ObstacleConfig" where
  "OBSTACLE_CONFIG CLASSIC = \<lparr>oc_count = 0, oc_movingChance = 0\<rparr>"
| "OBSTACLE_CONFIG ARCADE = \<lparr>oc_count = 5, oc_movingChance = fl (3 / 10)\<rparr>"
| "OBSTACLE_CONFIG SURVIVAL = \<lparr>oc_count = 8, oc_movingChance = fl (5 / 10)\<rparr>"
| "OBSTACLE_CONFIG CHALLENGE = \<lparr>oc_count = 10, oc_movingChance = fl (4 / 10)\<rparr>"
| "OBSTACLE_CONFIG MULTIPLAYER = \<lparr>oc_count = 6, oc_movingChance = fl (3 / 10)\<rparr>"

definition DIRECTIONS_UP :: Direction where "DIRECTIONS_UP = (0, - 1)"
definition DIRECTIONS_DOWN :: Direction where "DIRECTIONS_DOWN = (0, 1)"
definition DIRECTIONS_LEFT :: Direction where "DIRECTIONS_LEFT = (- 1, 0)"
definition DIRECTIONS_RIGHT :: Direction where "DIRECTIONS_RIGHT = (1, 0)"

section \<open>Helpers (utils/helpers.ts)\<close>

definition positionsEqual :: "Position \<Rightarrow> Position \<Rightarrow> bool" where
  "positionsEqual pos1 pos2 \<longleftrightarrow> fst pos1 = fst pos2 \<and> snd pos1 = snd pos2"

definition isInBounds :: "Position \<Rightarrow> int \<Rightarrow> bool" where
  "isInBounds pos gs \<longleftrightarrow> fst pos \<ge> 0 \<and> fst pos < gs \<and> snd pos \<ge> 0 \<and> snd pos < gs"

definition areOppositeDirections :: "Direction \<Rightarrow> Direction \<Rightarrow> bool" where
  "areOppositeDirections dir1 dir2 \<longleftrightarrow> fst dir1 = - fst dir2 \<and> snd dir1 = - snd dir2"

definition calculateScore :: "int \<Rightarrow> int \<Rightarrow> int \<Rightarrow> int" where
  \<comment> \<open>\<^verbatim>\<open>Math.floor(baseScore * combo * (1 + level * 0.1))\<close>, every operation rounded\<close>
  "calculateScore baseScore combo_now level_now =
     \<lfloor>fl (fl (of_int baseScore * of_int combo_now)
          * fl (1 + fl (of_int level_now * fl (1 / 10))))\<rfloor>"

definition calculateLevel :: "int \<Rightarrow> int \<Rightarrow> int" where
  \<comment> \<open>\<^verbatim>\<open>Math.floor(score / threshold) + 1\<close>; the engine's threshold is 100, never zero\<close>
  "calculateLevel sc threshold =
     double_int (of_int \<lfloor>fl (of_int sc / of_int threshold)\<rfloor> + 1)"

subsection \<open>The spatial hash grid\<close>

text \<open>
  The grid's string keys are represented by what they are printed from: the key
  \<^verbatim>\<open>`${x},${y}`\<close> of a cell by the position, the object identifiers \<^verbatim>\<open>snake-i\<close>,
  \<^verbatim>\<open>food\<close>, \<^verbatim>\<open>powerup-id\<close> and \<^verbatim>\<open>obstacle-id\<close> by a datatype. A JavaScript
  \<^verbatim>\<open>Map\<close> is an association list in insertion order, a \<^verbatim>\<open>Set\<close> a duplicate-free list.
\<close>

datatype ObjectKey = SnakeKey nat | FoodKey | PowerUpKey Id | ObstacleKey Id

record SpatialHashGrid =
  grid :: "(Position \<times> ObjectKey list) list"
  objectPositions :: "(ObjectKey \<times> Position) list"

definition grid_clear :: "SpatialHashGrid \<Rightarrow> SpatialHashGrid" where
  "grid_clear g = \<lparr>grid = [], objectPositions = []\<rparr>"

definition grid_insert :: "ObjectKey \<Rightarrow> Position \<Rightarrow> SpatialHashGrid \<Rightarrow> SpatialHashGrid" where
  "grid_insert k pos g =
     (let cell = (case map_of (grid g) pos of None \<Rightarrow> [] | Some s \<Rightarrow> s);
          cell' = (if k \<in> set cell then cell else cell @ [k])
      in \<lparr>grid = AList.update pos cell' (grid g),
          objectPositions = AList.update k pos (objectPositions g)\<rparr>)"

section \<open>The engine (engine/GameEngine.ts)\<close>

text \<open>
  The engine's fields, and with them its environment: \<^verbatim>\<open>Date.now()\<close> and
  \<^verbatim>\<open>Math.random()\<close> read the next value of a source and advance a counter, so that
  every run of the engine is a function of the two sources. Events are delivered
  synchronously to subscribers, which are outside the engine: the model records the
  sequence of emitted events. The fields \<^verbatim>\<open>fpsAverage\<close> and \<^verbatim>\<open>lastFrameTime\<close> are
  read and written by \<^verbatim>\<open>getPerformanceMetrics\<close> alone and are left out.
\<close>

record GameEngine =
  state :: GameState
  config :: GameConfig
  snake :: Snake
  food :: "Food option"
  powerUps :: "PowerUp list"
  obstacles :: "Obstacle list"
  activePowerUp :: "ActivePowerUp option"
  stats :: GameStats
  lastFoodTime :: int
  moveAccumulator :: rat
  currentSpeed :: rat
  frameCount :: int
  spatialGrid :: SpatialHashGrid
  emitted :: "GameEvent list"
  clock :: "nat \<Rightarrow> int"
  clock_reads :: nat
  random_source :: "nat \<Rightarrow> rat"
  random_reads :: nat

datatype EngineError =
    TypeError \<comment> \<open>reading \<^verbatim>\<open>.x\<close> of \<^verbatim>\<open>undefined\<close>: the snake has no segment\<close>
  | NotANumber \<comment> \<open>\<^verbatim>\<open>%\<close> by a grid size of zero: the position is no longer an integer pair\<close>

definition Date_now :: "GameEngine \<Rightarrow> int \<times> GameEngine" where
  "Date_now e = (clock e (clock_reads e), e\<lparr>clock_reads := Suc (clock_reads e)\<rparr>)"

definition Math_random :: "GameEngine \<Rightarrow> rat \<times> GameEngine" where
  \<comment> \<open>a value in \<open>[0, 1)\<close>: the fractional part of the source's next value\<close>
  "Math_random e =
     (let q = random_source e (random_reads e)
      in (q - of_int \<lfloor>q\<rfloor>, e\<lparr>random_reads := Suc (random_reads e)\<rparr>))"

definition generateId :: "GameEngine \<Rightarrow> Id \<times> GameEngine" where
  "generateId e =
     (let (t, e1) = Date_now e;
          (r, e2) = Math_random e1
      in ((t, \<lfloor>r * 36 ^ 9\<rfloor>), e2))"

definition pick :: "'a list \<Rightarrow> rat \<Rightarrow> 'a" where
  \<comment> \<open>\<^verbatim>\<open>xs[Math.floor(r * xs.length)]\<close>, in range for a non-empty list and \<open>r\<close> in \<open>[0, 1)\<close>\<close>
  "pick xs r = xs ! nat \<lfloor>fl (r * of_nat (length xs))\<rfloor>"

definition emitEvent :: "GameEvent \<Rightarrow> GameEngine \<Rightarrow> GameEngine" where
  "emitEvent ev e = e\<lparr>emitted := emitted e @ [ev]\<rparr>"

definition initialSegments :: "int \<Rightarrow> Position list" where
  \<comment> \<open>\<^verbatim>\<open>Array.from({ length: INITIAL_SNAKE_LENGTH }, (_, i) => ({ x: center - i, y: center }))\<close>\<close>
  "initialSegments gs =
     (let center = gs div 2
      in map (\<lambda>i. (center - int i, center)) [0..<nat INITIAL_SNAKE_LENGTH])"

definition new_GameEngine :: "GameConfig \<Rightarrow> (nat \<Rightarrow> int) \<Rightarrow> (nat \<Rightarrow> rat) \<Rightarrow> GameEngine" where
  "new_GameEngine cfg clk rnd =
     \<lparr>state = MENU,
      config = cfg,
      snake = \<lparr>segments = initialSegments (gridSize cfg),
               direction = DIRECTIONS_RIGHT,
               nextDirection = DIRECTIONS_RIGHT,
               snake_length = INITIAL_SNAKE_LENGTH\<rparr>,
      food = None,
      powerUps = [],
      obstacles = [],
      activePowerUp = None,
      stats = \<lparr>score = 0, level = 1, lives = INITIAL_LIVES (difficulty cfg), combo = 1,
               foodEaten = 0, powerUpsCollected = 0, timeElapsed = 0, highScore = 0\<rparr>,
      lastFoodTime = 0,
      moveAccumulator = 0,
      currentSpeed = sc_initial (SPEED_CONFIG (difficulty cfg)),
      frameCount = 0,
      spatialGrid = \<lparr>grid = [], objectPositions = []\<rparr>,
      emitted = [],
      clock = clk,
      clock_reads = 0,
      random_source = rnd,
      random_reads = 0\<rparr>"

definition reset :: "GameEngine \<Rightarrow> GameEngine" where
  "reset e =
     (let e1 = e\<lparr>snake := \<lparr>segments = initialSegments (gridSize (config e)),
                              direction = DIRECTIONS_RIGHT,
                              nextDirection = DIRECTIONS_RIGHT,
                              snake_length = INITIAL_SNAKE_LENGTH\<rparr>,
                   stats := (stats e)\<lparr>score := 0, level := 1,
                              lives := INITIAL_LIVES (difficulty (config e)), combo := 1,
                              foodEaten := 0, powerUpsCollected := 0, timeElapsed := 0\<rparr>,
                   food := None,
                   powerUps := [],
                   obstacles := [],
                   activePowerUp := None,
                   moveAccumulator := 0\<rparr>;
          (now, e2) = Date_now e1
      in e2\<lparr>lastFoodTime := now,
            currentSpeed := sc_initial (SPEED_CONFIG (difficulty (config e2))),
            spatialGrid := grid_clear (spatialGrid e2)\<rparr>)"

definition activeType :: "GameEngine \<Rightarrow> PowerUpType option" where
  \<comment> \<open>\<^verbatim>\<open>this.activePowerUp?.type\<close>\<close>
  "activeType e = map_option ap_type (activePowerUp e)"

definition checkCollision :: "GameEngine \<Rightarrow> Position \<Rightarrow> CollisionResult" where
  "checkCollision e pos =
     (if \<not> isInBounds pos (gridSize (config e))
      then \<lparr>ctype = c_wall, cposition = Some pos, cdata = None\<rparr>
      else case find (\<lambda>segment. positionsEqual pos segment) (segments (snake e)) of
        Some segment \<Rightarrow> \<lparr>ctype = c_self, cposition = Some pos, cdata = None\<rparr>
      | None \<Rightarrow>
         (if (case food e of None \<Rightarrow> False | Some f \<Rightarrow> positionsEqual pos (food_position f))
          then \<lparr>ctype = c_food, cposition = Some pos, cdata = map_option FoodData (food e)\<rparr>
          else case find (\<lambda>powerUp. positionsEqual pos (pu_position powerUp)) (powerUps e) of
            Some powerUp \<Rightarrow>
              \<lparr>ctype = c_powerup, cposition = Some pos, cdata = Some (PowerUpData powerUp)\<rparr>
          | None \<Rightarrow>
             (case find (\<lambda>obstacle. positionsEqual pos (ob_position obstacle)) (obstacles e) of
                Some obstacle \<Rightarrow>
                  \<lparr>ctype = c_obstacle, cposition = Some pos, cdata = Some (ObstacleData obstacle)\<rparr>
              | None \<Rightarrow> \<lparr>ctype = c_none, cposition = None, cdata = None\<rparr>)))"

definition wrapPosition :: "GameEngine \<Rightarrow> Position \<Rightarrow> Position option" where
  \<comment> \<open>\<^verbatim>\<open>((pos.x % gridSize) + gridSize) % gridSize\<close>; \<^verbatim>\<open>NaN\<close> for a grid size of zero\<close>
  "wrapPosition e pos =
     (let gs = gridSize (config e)
      in if gs = 0 then None
         else Some (js_rem (js_rem (fst pos) gs + gs) gs, js_rem (js_rem (snd pos) gs + gs) gs))"

definition occupied :: "GameEngine \<Rightarrow> Position \<Rightarrow> bool" where
  "occupied e pos \<longleftrightarrow>
     list_ex (\<lambda>s. positionsEqual s pos) (segments (snake e))
     \<or> (case food e of None \<Rightarrow> False | Some f \<Rightarrow> positionsEqual (food_position f) pos)
     \<or> list_ex (\<lambda>p. positionsEqual (pu_position p) pos) (powerUps e)
     \<or> list_ex (\<lambda>ob. positionsEqual (ob_position ob) pos) (obstacles e)"

definition getAvailablePositions :: "GameEngine \<Rightarrow> Position list" where
  "getAvailablePositions e =
     concat (map (\<lambda>px. concat (map (\<lambda>py. if occupied e (px, py) then [] else [(px, py)])
                                  [0..gridSize (config e) - 1]))
                 [0..gridSize (config e) - 1])"

definition spawnFood :: "GameEngine \<Rightarrow> GameEngine" where
  "spawnFood e =
     (let availablePositions = getAvailablePositions e
      in if length availablePositions = 0 then e
         else
          (let (r, e1) = Math_random e;
               position = pick availablePositions r;
               (rand, e2) = Math_random e1;
               (ftype, fvalue) =
                  (if rand < fl (5 / 100) then (food_golden, 100)
                   else if rand < fl (2 / 10) then (food_bonus, 50)
                   else (food_normal, BASE_FOOD_SCORE))
           in e2\<lparr>food := Some \<lparr>food_position = position, food_value = fvalue,
                                 food_type = ftype\<rparr>\<rparr>))"

definition PowerUpType_values :: "PowerUpType list" where
  \<comment> \<open>\<^verbatim>\<open>Object.values(PowerUpType)\<close>, in declaration order\<close>
  "PowerUpType_values = [SPEED, SLOW, GHOST, INVINCIBLE, DOUBLE_POINTS, SHRINK, MAGNET, FREEZE]"

definition spawnPowerUp :: "GameEngine \<Rightarrow> GameEngine" where
  "spawnPowerUp e =
     (if length (powerUps e) \<ge> 3 then e
      else
       (let availablePositions = getAvailablePositions e
        in if length availablePositions = 0 then e
           else
            (let (r, e1) = Math_random e;
                 position = pick availablePositions r;
                 (r2, e2) = Math_random e1;
                 ptype = pick PowerUpType_values r2;
                 (new_id, e3) = generateId e2;
                 (created, e4) = Date_now e3;
                 powerUp = \<lparr>pu_id = new_id, pu_type = ptype, pu_position = position,
                             pu_lifetime = 10000, pu_createdAt = created\<rparr>
             in e4\<lparr>powerUps := powerUps e4 @ [powerUp]\<rparr>)))"

definition getRandomDirection :: "GameEngine \<Rightarrow> Direction \<times> GameEngine" where
  "getRandomDirection e =
     (let (r, e1) = Math_random e
      in (pick [DIRECTIONS_UP, DIRECTIONS_DOWN, DIRECTIONS_LEFT, DIRECTIONS_RIGHT] r, e1))"

fun generateObstacles_loop :: "nat \<Rightarrow> ObstacleConfig \<Rightarrow> GameEngine \<Rightarrow> GameEngine" where
  "generateObstacles_loop 0 obstacleConfig e = e"
| "generateObstacles_loop (Suc n) obstacleConfig e =
     (let availablePositions = getAvailablePositions e
      in if length availablePositions = 0 then e
         else
          (let (r, e1) = Math_random e;
               position = pick availablePositions r;
               (r2, e2) = Math_random e1;
               isMoving = (r2 < oc_movingChance obstacleConfig);
               (new_id, e3) = generateId e2;
               (dir, e4) = (if isMoving then (case getRandomDirection e3 of (d, e') \<Rightarrow> (Some d, e'))
                            else (None, e3));
               obstacle = \<lparr>ob_id = new_id, ob_position = position,
                            ob_type = (if isMoving then obstacle_moving else obstacle_static),
                            ob_movingDirection = dir\<rparr>
           in generateObstacles_loop n obstacleConfig
                (e4\<lparr>obstacles := obstacles e4 @ [obstacle]\<rparr>)))"

definition generateObstacles :: "GameEngine \<Rightarrow> GameEngine" where
  "generateObstacles e =
     (let e1 = e\<lparr>obstacles := []\<rparr>;
          obstacleConfig = OBSTACLE_CONFIG (mode (config e1));
          n = min (double_int (of_int (double_int (of_int (oc_count obstacleConfig)
                                                       + of_int (level (stats e1)))) - 1)) 15
      in generateObstacles_loop (nat n) obstacleConfig e1)"

definition updateSpatialGrid :: "GameEngine \<Rightarrow> GameEngine" where
  "updateSpatialGrid e =
     (let g0 = grid_clear (spatialGrid e);
          g1 = fold (\<lambda>(segment, i). grid_insert (SnakeKey i) segment)
                 (zip (segments (snake e)) [0..<length (segments (snake e))]) g0;
          g2 = (case food e of None \<Rightarrow> g1 | Some f \<Rightarrow> grid_insert FoodKey (food_position f) g1);
          g3 = fold (\<lambda>powerUp. grid_insert (PowerUpKey (pu_id powerUp)) (pu_position powerUp))
                 (powerUps e) g2;
          g4 = fold (\<lambda>obstacle. grid_insert (ObstacleKey (ob_id obstacle)) (ob_position obstacle))
                 (obstacles e) g3
      in e\<lparr>spatialGrid := g4\<rparr>)"

definition levelUp :: "int \<Rightarrow> GameEngine \<Rightarrow> GameEngine" where
  "levelUp newLevel e =
     (let e1 = e\<lparr>stats := (stats e)\<lparr>level := newLevel\<rparr>\<rparr>;
          speedConfig = SPEED_CONFIG (difficulty (config e1));
          e2 = e1\<lparr>currentSpeed :=
                    max (fl (sc_initial speedConfig
                             - fl (fl (of_int newLevel - 1) * sc_increment speedConfig)))
                        (sc_min speedConfig)\<rparr>;
          e3 = generateObstacles e2
      in emitEvent (LEVEL_UP newLevel) e3)"

definition eatFood :: "GameEngine \<Rightarrow> GameEngine" where
  "eatFood e =
     (case food e of
        None \<Rightarrow> e
      | Some f \<Rightarrow>
         (let (now, e1) = Date_now e;
              e2 = e1\<lparr>stats := (stats e1)\<lparr>combo :=
                          (if now - lastFoodTime e1 < COMBO_TIME_WINDOW
                           then min (combo (stats e1) + 1) MAX_COMBO else 1)\<rparr>,
                      lastFoodTime := now\<rparr>;
              baseScore = food_value f;
              points = calculateScore baseScore (combo (stats e2)) (level (stats e2));
              e3 = e2\<lparr>stats := (stats e2)\<lparr>score := double_int (of_int (score (stats e2)) + of_int points),
                                            foodEaten := foodEaten (stats e2) + 1\<rparr>\<rparr>;
              e4 = emitEvent (FOOD_EATEN (food_position f) points) e3;
              newLevel = calculateLevel (score (stats e4)) LEVEL_UP_THRESHOLD;
              e5 = (if newLevel > level (stats e4) then levelUp newLevel e4 else e4);
              e6 = spawnFood e5
          in if mode (config e6) = ARCADE
             then (let (r, e7) = Math_random e6
                   in if r < POWER_UP_SPAWN_CHANCE then spawnPowerUp e7 else e7)
             else e6))"

definition collectPowerUp :: "PowerUp \<Rightarrow> GameEngine \<Rightarrow> GameEngine" where
  "collectPowerUp powerUp e =
     (let e1 = e\<lparr>stats := (stats e)\<lparr>powerUpsCollected := powerUpsCollected (stats e) + 1\<rparr>\<rparr>;
          e2 = e1\<lparr>powerUps := filter (\<lambda>p. pu_id p \<noteq> pu_id powerUp) (powerUps e1)\<rparr>;
          (now, e3) = Date_now e2;
          e4 = e3\<lparr>activePowerUp := Some \<lparr>ap_type = pu_type powerUp,
                                          ap_duration = POWER_UP_DURATION,
                                          ap_startTime = now\<rparr>\<rparr>;
          e5 = (case pu_type powerUp of
                  DOUBLE_POINTS \<Rightarrow>
                    e4\<lparr>stats := (stats e4)\<lparr>score := double_int (of_int (score (stats e4)) * 2)\<rparr>\<rparr>
                | SHRINK \<Rightarrow>
                    (if length (segments (snake e4)) > 3
                     then e4\<lparr>snake := (snake e4)\<lparr>segments :=
                            take (nat \<lceil>(of_nat (length (segments (snake e4))) :: rat) / 2\<rceil>)
                                 (segments (snake e4))\<rparr>\<rparr>
                     else e4)
                | SPEED \<Rightarrow> e4\<lparr>currentSpeed := max (currentSpeed e4 * (1 / 2)) 20\<rparr>
                | SLOW \<Rightarrow> e4\<lparr>currentSpeed := min (currentSpeed e4 * 2) 300\<rparr>
                | _ \<Rightarrow> e4)
      in emitEvent (POWER_UP_COLLECTED powerUp) e5)"

fun filterLive :: "PowerUp list \<Rightarrow> GameEngine \<Rightarrow> PowerUp list \<times> GameEngine" where
  \<comment> \<open>\<^verbatim>\<open>this.powerUps.filter(p => Date.now() - p.createdAt < p.lifetime)\<close>: one clock
      reading for each element, in order\<close>
  "filterLive [] e = ([], e)"
| "filterLive (p # ps) e =
     (let (now, e1) = Date_now e;
          age = now - pu_createdAt p;
          (rest, e2) = filterLive ps e1
      in (if age < pu_lifetime p then p # rest else rest, e2))"

definition updatePowerUps :: "rat \<Rightarrow> GameEngine \<Rightarrow> GameEngine" where
  "updatePowerUps deltaTime e =
     (let (live, e1) = filterLive (powerUps e) e;
          e2 = e1\<lparr>powerUps := live\<rparr>
      in case activePowerUp e2 of
           None \<Rightarrow> e2
         | Some active \<Rightarrow>
            (let (now, e3) = Date_now e2;
                 elapsed = now - ap_startTime active
             in if elapsed \<ge> ap_duration active
                then
                 (let base = sc_initial (SPEED_CONFIG (difficulty (config e3)));
                      e4 = (if ap_type active = SPEED
                            then e3\<lparr>currentSpeed := min (currentSpeed e3 * 2) base\<rparr>
                            else if ap_type active = SLOW
                            then e3\<lparr>currentSpeed := max (currentSpeed e3 * (1 / 2)) base\<rparr>
                            else e3)
                  in e4\<lparr>activePowerUp := None\<rparr>)
                else e3))"

definition updateObstacle :: "GameEngine \<Rightarrow> Obstacle \<Rightarrow> Obstacle" where
  \<comment> \<open>the body of the loop of \<^verbatim>\<open>updateObstacles\<close>\<close>
  "updateObstacle e obstacle =
     (case ob_movingDirection obstacle of
        None \<Rightarrow> obstacle
      | Some movingDirection \<Rightarrow>
         (if ob_type obstacle \<noteq> obstacle_moving then obstacle
          else
           (let newPos = (fst (ob_position obstacle) + fst movingDirection,
                          snd (ob_position obstacle) + snd movingDirection);
                reversed = (- fst movingDirection, - snd movingDirection)
            in if \<not> isInBounds newPos (gridSize (config e))
               then obstacle\<lparr>ob_movingDirection := Some reversed\<rparr>
               else if list_ex (\<lambda>s. positionsEqual s newPos) (segments (snake e))
                       \<or> (case food e of None \<Rightarrow> False
                           | Some f \<Rightarrow> positionsEqual (food_position f) newPos)
               then obstacle\<lparr>ob_movingDirection := Some reversed\<rparr>
               else obstacle\<lparr>ob_position := newPos\<rparr>)))"

definition updateObstacles :: "GameEngine \<Rightarrow> GameEngine" where
  "updateObstacles e = e\<lparr>obstacles := map (updateObstacle e) (obstacles e)\<rparr>"

definition resetSnakePosition :: "GameEngine \<Rightarrow> GameEngine" where
  "resetSnakePosition e =
     e\<lparr>snake := (snake e)\<lparr>segments := initialSegments (gridSize (config e)),
                           direction := DIRECTIONS_RIGHT,
                           nextDirection := DIRECTIONS_RIGHT\<rparr>\<rparr>"

definition gameOver :: "GameEngine \<Rightarrow> GameEngine" where
  "gameOver e = (let e1 = e\<lparr>state := GAME_OVER\<rparr> in emitEvent (GAME_OVER_EVENT (stats e1)) e1)"

definition handleDeath :: "GameEngine \<Rightarrow> GameEngine" where
  "handleDeath e =
     (let e1 = e\<lparr>stats := (stats e)\<lparr>lives := lives (stats e) - 1\<rparr>\<rparr>;
          e2 = emitEvent (COLLISION ''death'') e1
      in if lives (stats e2) \<le> 0 then gameOver e2 else resetSnakePosition e2)"

definition updateGameLogic :: "GameEngine \<Rightarrow> EngineError + GameEngine" where
  "updateGameLogic e =
     (let e1 = e\<lparr>snake := (snake e)\<lparr>direction := nextDirection (snake e)\<rparr>\<rparr>
      in case segments (snake e1) of
           [] \<Rightarrow> Inl TypeError
         | currentHead # others \<Rightarrow>
            (let newHead = (fst currentHead + fst (direction (snake e1)),
                            snd currentHead + snd (direction (snake e1)));
                 collision = checkCollision e1 newHead
             in if ctype collision = c_wall \<and> activeType e1 \<noteq> Some GHOST
                then Inr (handleDeath e1)
                else
                 (case (if ctype collision = c_wall then wrapPosition e1 newHead
                        else Some newHead) of
                    None \<Rightarrow> Inl NotANumber
                  | Some newHead' \<Rightarrow>
                     (if ctype collision = c_self \<and> activeType e1 \<noteq> Some INVINCIBLE
                      then Inr (handleDeath e1)
                      else if ctype collision = c_obstacle
                              \<and> activeType e1 \<noteq> Some INVINCIBLE
                              \<and> activeType e1 \<noteq> Some GHOST
                      then Inr (handleDeath e1)
                      else
                       (let e2 = e1\<lparr>snake := (snake e1)\<lparr>segments :=
                                      newHead' # segments (snake e1)\<rparr>\<rparr>;
                            e3 = (if ctype collision = c_food then eatFood e2
                                  else e2\<lparr>snake := (snake e2)\<lparr>segments :=
                                            butlast (segments (snake e2))\<rparr>\<rparr>);
                            e4 = (if ctype collision = c_powerup
                                  then (case cdata collision of
                                          Some (PowerUpData powerUp) \<Rightarrow> collectPowerUp powerUp e3
                                        | _ \<Rightarrow> e3)
                                  else e3)
                        in Inr (updateSpatialGrid e4))))))"

definition update :: "rat \<Rightarrow> GameEngine \<Rightarrow> EngineError + GameEngine" where
  "update deltaTime e =
     (if state e \<noteq> PLAYING then Inr e
      else
       (let e1 = e\<lparr>stats := (stats e)\<lparr>timeElapsed := fl (timeElapsed (stats e) + deltaTime)\<rparr>,
                   moveAccumulator := fl (moveAccumulator e + deltaTime)\<rparr>
        in case (if moveAccumulator e1 \<ge> currentSpeed e1
                 then updateGameLogic (e1\<lparr>moveAccumulator := 0\<rparr>)
                 else Inr e1) of
             Inl err \<Rightarrow> Inl err
           | Inr e2 \<Rightarrow>
              (let e3 = updatePowerUps deltaTime e2;
                   e4 = (if js_rem (frameCount e3) 10 = 0 then updateObstacles e3 else e3)
               in Inr (e4\<lparr>frameCount := frameCount e4 + 1\<rparr>))))"

definition init :: "GameEngine \<Rightarrow> GameEngine" where
  "init e = updateSpatialGrid (generateObstacles (spawnFood (reset e)))"

definition changeDirection :: "Direction \<Rightarrow> GameEngine \<Rightarrow> GameEngine" where
  "changeDirection dir e =
     (if \<not> areOppositeDirections dir (direction (snake e))
      then e\<lparr>snake := (snake e)\<lparr>nextDirection := dir\<rparr>\<rparr>
      else e)"

definition getState :: "GameEngine \<Rightarrow> GameState" where
  "getState e = state e"

definition setState :: "GameState \<Rightarrow> GameEngine \<Rightarrow> GameEngine" where
  "setState s e = e\<lparr>state := s\<rparr>"

text \<open>
  On values a copy is the value itself; what a copy shares with the engine is the subject
  of the store model below.
\<close>

definition getSnake :: "GameEngine \<Rightarrow> Snake" where
  "getSnake e = snake e"

definition getStats :: "GameEngine \<Rightarrow> GameStats" where
  "getStats e = stats e"

subsection \<open>The stages of \<^verbatim>\<open>eatFood\<close>\<close>

text \<open>
  The body of \<^verbatim>\<open>eatFood\<close> in three parts, in the order of the source: the combo and score
  update up to the \<^verbatim>\<open>FOOD_EATEN\<close> event, the level check, and the power-up draw that
  follows \<^verbatim>\<open>spawnFood\<close>. They are proved below to compose to \<open>eatFood\<close>.
\<close>

definition eatFood_score :: "Food \<Rightarrow> GameEngine \<Rightarrow> GameEngine" where
  "eatFood_score f e =
     (let (now, e1) = Date_now e;
          e2 = e1\<lparr>stats := (stats e1)\<lparr>combo :=
                      (if now - lastFoodTime e1 < COMBO_TIME_WINDOW
                       then min (combo (stats e1) + 1) MAX_COMBO else 1)\<rparr>,
                  lastFoodTime := now\<rparr>;
          baseScore = food_value f;
          points = calculateScore baseScore (combo (stats e2)) (level (stats e2));
          e3 = e2\<lparr>stats := (stats e2)\<lparr>score := double_int (of_int (score (stats e2)) + of_int points),
                                        foodEaten := foodEaten (stats e2) + 1\<rparr>\<rparr>
      in emitEvent (FOOD_EATEN (food_position f) points) e3)"

definition eatFood_level :: "GameEngine \<Rightarrow> GameEngine" where
  "eatFood_level e4 =
     (let newLevel = calculateLevel (score (stats e4)) LEVEL_UP_THRESHOLD
      in if newLevel > level (stats e4) then levelUp newLevel e4 else e4)"

definition eatFood_powerUp :: "GameEngine \<Rightarrow> GameEngine" where
  "eatFood_powerUp e6 =
     (if mode (config e6) = ARCADE
      then (let (r, e7) = Math_random e6
            in if r < POWER_UP_SPAWN_CHANCE then spawnPowerUp e7 else e7)
      else e6)"

subsection \<open>Reachable engine states\<close>

text \<open>
  The states the public operations produce from a fresh engine: the constructor,
  \<^verbatim>\<open>init\<close>, \<^verbatim>\<open>update\<close> (when it returns), \<^verbatim>\<open>changeDirection\<close> and \<^verbatim>\<open>setState\<close>. The
  getters and \<^verbatim>\<open>on\<close> leave the fields of the model unchanged.
\<close>

inductive reachable :: "GameEngine \<Rightarrow> bool" where
  reachable_new: "reachable (new_GameEngine cfg clk rnd)"
| reachable_init: "reachable e \<Longrightarrow> reachable (init e)"
| reachable_update: "reachable e \<Longrightarrow> update deltaTime e = Inr e' \<Longrightarrow> reachable e'"
| reachable_changeDirection: "reachable e \<Longrightarrow> reachable (changeDirection dir e)"
| reachable_setState: "reachable e \<Longrightarrow> reachable (setState s e)"

section \<open>Words of the specification, and example states\<close>

definition exact_opposite :: "Direction \<Rightarrow> Direction" where
  \<comment> \<open>the specification's "exact opposite" of a direction\<close>
  "exact_opposite d = (- fst d, - snd d)"

definition demo_config :: GameConfig where
  "demo_config = \<lparr>gridSize = 25, cellSize = 16, initialSpeed = 100, speedIncrement = 5,
      maxSpeed = 20, difficulty = NORMAL, theme = NEON, mode = ARCADE,
      soundEnabled = True, musicEnabled = True\<rparr>"

definition demo_engine :: GameEngine where
  "demo_engine = new_GameEngine demo_config (\<lambda>n. 0) (\<lambda>n. 0)"

definition ghost_demo :: GameEngine where
  \<comment> \<open>head at the right wall, ghost active; food and an obstacle on the cell the head wraps to\<close>
  "ghost_demo = demo_engine
     \<lparr>snake := (snake demo_engine)\<lparr>segments := [(24, 12), (23, 12), (22, 12)]\<rparr>,
      food := Some \<lparr>food_position = (0, 12), food_value = 10, food_type = food_normal\<rparr>,
      obstacles := [\<lparr>ob_id = (0, 0), ob_position = (0, 12), ob_type = obstacle_static,
                     ob_movingDirection = None\<rparr>],
      activePowerUp := Some \<lparr>ap_type = GHOST, ap_duration = 5000, ap_startTime = 0\<rparr>\<rparr>"

definition wall_demo :: GameEngine where
  \<comment> \<open>head at the right wall, no effect active, three lives\<close>
  "wall_demo = demo_engine
     \<lparr>snake := (snake demo_engine)\<lparr>segments := [(24, 12), (23, 12), (22, 12)]\<rparr>\<rparr>"

definition last_life_demo :: GameEngine where
  "last_life_demo = wall_demo\<lparr>stats := (stats wall_demo)\<lparr>lives := 1\<rparr>\<rparr>"

definition small_config :: GameConfig where
  "small_config = \<lparr>gridSize = 4, cellSize = 16, initialSpeed = 100, speedIncrement = 5,
      maxSpeed = 20, difficulty = NORMAL, theme = NEON, mode = CLASSIC,
      soundEnabled = True, musicEnabled = True\<rparr>"

definition small_start :: GameEngine where
  \<comment> \<open>a started game on a 4 x 4 grid; the random source puts the food in front of the head\<close>
  "small_start = setState PLAYING (init (new_GameEngine small_config (\<lambda>n. 0) (\<lambda>n. 7 / 8)))"

definition speed_demo :: PowerUp where
  "speed_demo = \<lparr>pu_id = (0, 0), pu_type = SPEED, pu_position = (13, 12),
                  pu_lifetime = 10000, pu_createdAt = 0\<rparr>"

definition eat_demo :: GameEngine where
  \<comment> \<open>food of value 10 in front of the head, the previous pickup 5000 ms before the clock\<close>
  "eat_demo = demo_engine
     \<lparr>food := Some \<lparr>food_position = (13, 12), food_value = 10, food_type = food_normal\<rparr>,
      lastFoodTime := - 5000,
      state := PLAYING\<rparr>"

definition slow_demo :: PowerUp where
  "slow_demo = speed_demo\<lparr>pu_type := SLOW\<rparr>"

definition speed_active_demo :: GameEngine where
  \<comment> \<open>a speed effect picked up 5000 ms before the clock, the interval halved to 50\<close>
  "speed_active_demo = demo_engine
     \<lparr>activePowerUp := Some \<lparr>ap_type = SPEED, ap_duration = 5000, ap_startTime = - 5000\<rparr>,
      currentSpeed := 50\<rparr>"


definition big_score_demo :: GameEngine where
  \<comment> \<open>a score of \<open>2 ^ 53 + 100\<close> with its level, food of value 10 in front of the head, the
      previous pickup 5000 ms before the clock\<close>
  "big_score_demo = demo_engine
     \<lparr>food := Some \<lparr>food_position = (13, 12), food_value = 10, food_type = food_normal\<rparr>,
      stats := (stats demo_engine)\<lparr>score := 9007199254741092, level := 90071992547411\<rparr>,
      lastFoodTime := - 5000,
      state := PLAYING\<rparr>"

definition level2_demo :: GameEngine where
  \<comment> \<open>level 2 on normal difficulty, the interval 96; the clock reads 0, then 5000\<close>
  "level2_demo = demo_engine
     \<lparr>stats := (stats demo_engine)\<lparr>score := 100, level := 2\<rparr>,
      currentSpeed := 96,
      clock := (\<lambda>n. if n = 0 then 0 else 5000),
      state := PLAYING\<rparr>"

section \<open>Object identity: what a snapshot shares with the engine\<close>

text \<open>
  The getters copy with the spread operator: \<^verbatim>\<open>{ ...this.snake }\<close>, \<^verbatim>\<open>[...this.powerUps]\<close>.
  What such a copy shares with the engine depends on which values are references, so the
  getters are modelled a second time over a store: a list of cells, a reference being the
  index of a cell. A cell is an object (its properties in insertion order) or an array. A new
  cell is put at the end of the store.
\<close>

datatype jsval = JNum rat | JStr string | JBool bool | JNull | JUndefined | JRef nat

datatype jsobj = JObject "(string \<times> jsval) list" | JArray "jsval list"

type_synonym heap = "jsobj list"

record EngineRefs =
  snake_ref :: nat
  food_ref :: "nat option"
  powerUps_ref :: nat
  obstacles_ref :: nat
  activePowerUp_ref :: "nat option"
  stats_ref :: nat
  config_ref :: nat

definition spread_copy :: "nat \<Rightarrow> heap \<Rightarrow> heap \<times> jsval" where
  \<comment> \<open>\<^verbatim>\<open>{ ...o }\<close> and \<^verbatim>\<open>[...a]\<close>: a new cell with the properties (the elements) of the old one\<close>
  "spread_copy a h = (if a < length h then (h @ [h ! a], JRef (length h)) else (h, JUndefined))"

definition store_getSnake :: "EngineRefs \<Rightarrow> heap \<Rightarrow> heap \<times> jsval" where
  "store_getSnake r h = spread_copy (snake_ref r) h"

definition store_getFood :: "EngineRefs \<Rightarrow> heap \<Rightarrow> heap \<times> jsval" where
  "store_getFood r h = (case food_ref r of None \<Rightarrow> (h, JNull) | Some a \<Rightarrow> spread_copy a h)"

definition store_getPowerUps :: "EngineRefs \<Rightarrow> heap \<Rightarrow> heap \<times> jsval" where
  "store_getPowerUps r h = spread_copy (powerUps_ref r) h"

definition store_getObstacles :: "EngineRefs \<Rightarrow> heap \<Rightarrow> heap \<times> jsval" where
  "store_getObstacles r h = spread_copy (obstacles_ref r) h"

definition store_getActivePowerUp :: "EngineRefs \<Rightarrow> heap \<Rightarrow> heap \<times> jsval" where
  "store_getActivePowerUp r h =
     (case activePowerUp_ref r of None \<Rightarrow> (h, JNull) | Some a \<Rightarrow> spread_copy a h)"

definition store_getStats :: "EngineRefs \<Rightarrow> heap \<Rightarrow> heap \<times> jsval" where
  "store_getStats r h = spread_copy (stats_ref r) h"

definition store_getConfig :: "EngineRefs \<Rightarrow> heap \<Rightarrow> heap \<times> jsval" where
  "store_getConfig r h = spread_copy (config_ref r) h"

definition snapshot_getters :: "(EngineRefs \<Rightarrow> heap \<Rightarrow> heap \<times> jsval) list" where
  "snapshot_getters = [store_getSnake, store_getFood, store_getPowerUps, store_getObstacles,
                       store_getActivePowerUp, store_getStats, store_getConfig]"

text \<open>
  What a reader does to a cell it holds a reference to: set a property of an object, set an
  element of an array (JavaScript extends the array when the index is past its end), push and
  pop. A write that does not fit the cell, or whose address is not in the store, changes
  nothing.
\<close>

datatype heap_write = SetProp nat string jsval | SetIndex nat nat jsval | Push nat jsval | Pop nat

fun write_target :: "heap_write \<Rightarrow> nat" where
  "write_target (SetProp a k v) = a"
| "write_target (SetIndex a i v) = a"
| "write_target (Push a v) = a"
| "write_target (Pop a) = a"

fun write_cell :: "heap_write \<Rightarrow> jsobj \<Rightarrow> jsobj" where
  "write_cell (SetProp a k v) (JObject fs) = JObject (AList.update k v fs)"
| "write_cell (SetIndex a i v) (JArray xs) =
     JArray (if i < length xs then xs[i := v]
             else xs @ replicate (i - length xs) JUndefined @ [v])"
| "write_cell (Push a v) (JArray xs) = JArray (xs @ [v])"
| "write_cell (Pop a) (JArray xs) = JArray (butlast xs)"
| "write_cell w ob = ob"

definition apply_write :: "heap_write \<Rightarrow> heap \<Rightarrow> heap" where
  "apply_write w h =
     (if write_target w < length h
      then h[write_target w := write_cell w (h ! write_target w)] else h)"

text \<open>
  The engine's state in the store is what it reads from its fields: the cells of its
  objects, followed through their references. The objects of the engine nest four deep at
  most (the power-up array, a power-up, its position, a coordinate).
\<close>

datatype jstree = Leaf jsval | ObjectTree "(string \<times> jstree) list" | ArrayTree "jstree list" | Cut

fun deep_read :: "nat \<Rightarrow> heap \<Rightarrow> jsval \<Rightarrow> jstree" where
  "deep_read 0 h v = (case v of JRef a \<Rightarrow> Cut | _ \<Rightarrow> Leaf v)"
| "deep_read (Suc n) h v =
     (case v of
        JRef a \<Rightarrow>
          (if a < length h
           then (case h ! a of
                   JObject fs \<Rightarrow> ObjectTree (map (\<lambda>kv. (fst kv, deep_read n h (snd kv))) fs)
                 | JArray xs \<Rightarrow> ArrayTree (map (deep_read n h) xs))
           else Cut)
      | _ \<Rightarrow> Leaf v)"

definition engine_roots :: "EngineRefs \<Rightarrow> nat list" where
  "engine_roots r =
     [snake_ref r] @ (case food_ref r of None \<Rightarrow> [] | Some a \<Rightarrow> [a])
     @ [powerUps_ref r, obstacles_ref r]
     @ (case activePowerUp_ref r of None \<Rightarrow> [] | Some a \<Rightarrow> [a])
     @ [stats_ref r, config_ref r]"

definition engine_view :: "EngineRefs \<Rightarrow> heap \<Rightarrow> jstree list" where
  "engine_view r h = map (\<lambda>a. deep_read 4 h (JRef a)) (engine_roots r)"

fun refs_of_val :: "jsval \<Rightarrow> nat list" where
  "refs_of_val (JRef a) = [a]"
| "refs_of_val v = []"

fun refs_of :: "jsobj \<Rightarrow> nat list" where
  "refs_of (JObject fs) = concat (map (\<lambda>kv. refs_of_val (snd kv)) fs)"
| "refs_of (JArray xs) = concat (map refs_of_val xs)"

fun reach :: "nat \<Rightarrow> heap \<Rightarrow> nat \<Rightarrow> nat list" where
  \<comment> \<open>the cells a holder of the reference \<open>a\<close> reaches in at most \<open>n\<close> steps\<close>
  "reach 0 h a = [a]"
| "reach (Suc n) h a =
     a # (if a < length h then concat (map (reach n h) (refs_of (h ! a))) else [])"

definition closed_heap :: "heap \<Rightarrow> bool" where
  "closed_heap h \<longleftrightarrow> list_all (\<lambda>ob. list_all (\<lambda>a. a < length h) (refs_of ob)) h"

definition wf_engine :: "EngineRefs \<Rightarrow> heap \<Rightarrow> bool" where
  \<comment> \<open>the engine's fields and the references in the store point into the store\<close>
  "wf_engine r h \<longleftrightarrow> closed_heap h \<and> list_all (\<lambda>a. a < length h) (engine_roots r)"

definition flat :: "jsobj \<Rightarrow> bool" where
  \<comment> \<open>a cell of primitive values, as the statistics, the configuration and the active effect are\<close>
  "flat ob \<longleftrightarrow> refs_of ob = []"

definition demo_heap :: heap where
  \<comment> \<open>the store of a fresh engine on a 25 x 25 grid\<close>
  "demo_heap =
     [JObject [(''segments'', JRef 1), (''direction'', JRef 5), (''nextDirection'', JRef 5),
               (''length'', JNum 3)],
      JArray [JRef 2, JRef 3, JRef 4],
      JObject [(''x'', JNum 12), (''y'', JNum 12)],
      JObject [(''x'', JNum 11), (''y'', JNum 12)],
      JObject [(''x'', JNum 10), (''y'', JNum 12)],
      JObject [(''x'', JNum 1), (''y'', JNum 0)],
      JObject [(''score'', JNum 0), (''level'', JNum 1), (''lives'', JNum 3), (''combo'', JNum 1),
               (''foodEaten'', JNum 0), (''powerUpsCollected'', JNum 0),
               (''timeElapsed'', JNum 0), (''highScore'', JNum 0)],
      JObject [(''gridSize'', JNum 25), (''cellSize'', JNum 16), (''initialSpeed'', JNum 100),
               (''speedIncrement'', JNum 5), (''maxSpeed'', JNum 20),
               (''difficulty'', JStr ''normal''), (''theme'', JStr ''neon''),
               (''mode'', JStr ''arcade''), (''soundEnabled'', JBool True),
               (''musicEnabled'', JBool True)],
      JArray [],
      JArray []]"

definition demo_refs :: EngineRefs where
  "demo_refs = \<lparr>snake_ref = 0, food_ref = None, powerUps_ref = 8, obstacles_ref = 9,
                 activePowerUp_ref = None, stats_ref = 6, config_ref = 7\<rparr>"

definition active_heap :: heap where
  \<comment> \<open>the same store after a speed pickup at clock \<open>0\<close>: the active effect is a new cell\<close>
  "active_heap =
     demo_heap @ [JObject [(''type'', JStr ''speed''), (''duration'', JNum 5000),
                           (''startTime'', JNum 0)]]"

definition active_refs :: EngineRefs where
  "active_refs = demo_refs\<lparr>activePowerUp_ref := Some 10\<rparr>"

section \<open>Basic facts\<close>

lemma find_None_forall: "find P xs = None \<longleftrightarrow> (\<forall>x\<in>set xs. \<not> P x)"
  by (induction xs) auto

lemma positionsEqual_iff: "positionsEqual p q \<longleftrightarrow> p = q"
  by (auto simp: positionsEqual_def prod_eq_iff)

lemma initialSegments_eq:
  "initialSegments gs = [(gs div 2, gs div 2), (gs div 2 - 1, gs div 2), (gs div 2 - 2, gs div 2)]"
  by (simp add: initialSegments_def INITIAL_SNAKE_LENGTH_def eval_nat_numeral upt_rec Let_def)

lemma js_rem_nonneg: "0 \<le> a \<Longrightarrow> 0 < b \<Longrightarrow> js_rem a b = a mod b"
  by (cases "a = 0") (simp_all add: js_rem_def)

lemma js_rem_neg: "a < 0 \<Longrightarrow> 0 < b \<Longrightarrow> js_rem a b = - ((- a) mod b)"
  by (simp add: js_rem_def)

lemma js_wrap_mod:
  assumes "0 < b"
  shows "js_rem (js_rem a b + b) b = a mod b"
proof (cases "0 \<le> a")
  case True
  then have "js_rem a b = a mod b" using assms by (rule js_rem_nonneg)
  moreover have "0 \<le> a mod b + b" using assms by (simp add: add_nonneg_nonneg)
  ultimately show ?thesis using assms by (simp add: js_rem_nonneg)
next
  case False
  then have r: "js_rem a b = - ((- a) mod b)" using assms by (simp add: js_rem_neg)
  have "(- a) mod b < b" using assms by simp
  then have "0 \<le> - ((- a) mod b) + b" by simp
  then have "js_rem (js_rem a b + b) b = (- ((- a) mod b) + b) mod b"
    unfolding r using assms by (rule js_rem_nonneg)
  also have "\<dots> = (- ((- a) mod b)) mod b" by simp
  also have "\<dots> = a mod b" by (simp add: mod_minus_eq)
  finally show ?thesis .
qed

lemma wrapPosition_mod:
  "0 < gridSize (config e) \<Longrightarrow>
   wrapPosition e pos = Some (fst pos mod gridSize (config e), snd pos mod gridSize (config e))"
  by (simp add: wrapPosition_def Let_def js_wrap_mod)

lemma checkCollision_same_fields:
  "config e' = config e \<Longrightarrow> segments (snake e') = segments (snake e) \<Longrightarrow> food e' = food e
   \<Longrightarrow> powerUps e' = powerUps e \<Longrightarrow> obstacles e' = obstacles e
   \<Longrightarrow> checkCollision e' pos = checkCollision e pos"
  by (simp add: checkCollision_def cong del: option.case_cong_weak)

lemma checkCollision_direction [simp]:
  "checkCollision (e\<lparr>snake := (snake e)\<lparr>direction := d\<rparr>\<rparr>) pos = checkCollision e pos"
  by (rule checkCollision_same_fields) simp_all

lemma activeType_direction [simp]:
  "activeType (e\<lparr>snake := (snake e)\<lparr>direction := d\<rparr>\<rparr>) = activeType e"
  by (simp add: activeType_def)

lemma wrapPosition_direction [simp]:
  "wrapPosition (e\<lparr>snake := (snake e)\<lparr>direction := d\<rparr>\<rparr>) pos = wrapPosition e pos"
  by (simp add: wrapPosition_def)

lemma updateGameLogic_ghost_wall:
  assumes seg: "segments (snake e) = h # t"
    and ghost: "activeType e = Some GHOST"
    and wall: "ctype (checkCollision e (fst h + fst (nextDirection (snake e)),
                                         snd h + snd (nextDirection (snake e)))) = c_wall"
    and gs: "0 < gridSize (config e)"
  shows "updateGameLogic e =
           Inr (updateSpatialGrid
                  (e\<lparr>snake := (snake e)\<lparr>direction := nextDirection (snake e),
                        segments := butlast
                          (((fst h + fst (nextDirection (snake e))) mod gridSize (config e),
                            (snd h + snd (nextDirection (snake e))) mod gridSize (config e))
                           # h # t)\<rparr>\<rparr>))"
  using seg ghost wall gs
  by (simp add: updateGameLogic_def Let_def wrapPosition_mod)

lemma updateSpatialGrid_fields [simp]:
  "state (updateSpatialGrid e) = state e"
  "config (updateSpatialGrid e) = config e"
  "snake (updateSpatialGrid e) = snake e"
  "food (updateSpatialGrid e) = food e"
  "powerUps (updateSpatialGrid e) = powerUps e"
  "obstacles (updateSpatialGrid e) = obstacles e"
  "activePowerUp (updateSpatialGrid e) = activePowerUp e"
  "stats (updateSpatialGrid e) = stats e"
  "lastFoodTime (updateSpatialGrid e) = lastFoodTime e"
  "moveAccumulator (updateSpatialGrid e) = moveAccumulator e"
  "currentSpeed (updateSpatialGrid e) = currentSpeed e"
  "frameCount (updateSpatialGrid e) = frameCount e"
  "emitted (updateSpatialGrid e) = emitted e"
  "clock (updateSpatialGrid e) = clock e"
  "clock_reads (updateSpatialGrid e) = clock_reads e"
  "random_source (updateSpatialGrid e) = random_source e"
  "random_reads (updateSpatialGrid e) = random_reads e"
  by (simp_all add: updateSpatialGrid_def Let_def)

lemma update_not_playing: "state e \<noteq> PLAYING \<Longrightarrow> update dt e = Inr e"
  by (simp add: update_def)

lemma handleDeath_respawn:
  "1 < lives (stats e) \<Longrightarrow>
   handleDeath e = e\<lparr>stats := (stats e)\<lparr>lives := lives (stats e) - 1\<rparr>,
                      emitted := emitted e @ [COLLISION ''death''],
                      snake := (snake e)\<lparr>segments := initialSegments (gridSize (config e)),
                                            direction := DIRECTIONS_RIGHT,
                                            nextDirection := DIRECTIONS_RIGHT\<rparr>\<rparr>"
  by (simp add: handleDeath_def emitEvent_def resetSnakePosition_def Let_def)

lemma handleDeath_gameOver:
  "lives (stats e) \<le> 1 \<Longrightarrow>
   handleDeath e = e\<lparr>stats := (stats e)\<lparr>lives := lives (stats e) - 1\<rparr>,
                      emitted := emitted e @ [COLLISION ''death'',
                         GAME_OVER_EVENT ((stats e)\<lparr>lives := lives (stats e) - 1\<rparr>)],
                      state := GAME_OVER\<rparr>"
  by (simp add: handleDeath_def emitEvent_def gameOver_def Let_def)

lemma updateGameLogic_lethal:
  assumes "segments (snake e) = h # t"
    and "ctype (checkCollision e (fst h + fst (nextDirection (snake e)),
                                  snd h + snd (nextDirection (snake e)))) = c_wall
           \<and> activeType e \<noteq> Some GHOST
         \<or> ctype (checkCollision e (fst h + fst (nextDirection (snake e)),
                                  snd h + snd (nextDirection (snake e)))) = c_self
           \<and> activeType e \<noteq> Some INVINCIBLE
         \<or> ctype (checkCollision e (fst h + fst (nextDirection (snake e)),
                                  snd h + snd (nextDirection (snake e)))) = c_obstacle
           \<and> activeType e \<noteq> Some INVINCIBLE \<and> activeType e \<noteq> Some GHOST"
  shows "updateGameLogic e =
           Inr (handleDeath (e\<lparr>snake := (snake e)\<lparr>direction := nextDirection (snake e)\<rparr>\<rparr>))"
  using assms by (auto simp: updateGameLogic_def Let_def)

lemmas demo_defs = ghost_demo_def wall_demo_def last_life_demo_def demo_engine_def
  new_GameEngine_def demo_config_def initialSegments_eq DIRECTIONS_RIGHT_def
  INITIAL_SNAKE_LENGTH_def activeType_def checkCollision_def isInBounds_def positionsEqual_def

section \<open>What each operation leaves unchanged\<close>

lemma spawnFood_frame [simp]:
  "state (spawnFood e) = state e"
  "config (spawnFood e) = config e"
  "snake (spawnFood e) = snake e"
  "powerUps (spawnFood e) = powerUps e"
  "obstacles (spawnFood e) = obstacles e"
  "activePowerUp (spawnFood e) = activePowerUp e"
  "stats (spawnFood e) = stats e"
  "lastFoodTime (spawnFood e) = lastFoodTime e"
  "moveAccumulator (spawnFood e) = moveAccumulator e"
  "currentSpeed (spawnFood e) = currentSpeed e"
  "frameCount (spawnFood e) = frameCount e"
  "spatialGrid (spawnFood e) = spatialGrid e"
  "emitted (spawnFood e) = emitted e"
  "clock (spawnFood e) = clock e"
  "clock_reads (spawnFood e) = clock_reads e"
  "random_source (spawnFood e) = random_source e"
  by (simp_all add: spawnFood_def Let_def Math_random_def case_prod_beta)

lemma spawnPowerUp_frame [simp]:
  "state (spawnPowerUp e) = state e"
  "config (spawnPowerUp e) = config e"
  "snake (spawnPowerUp e) = snake e"
  "food (spawnPowerUp e) = food e"
  "obstacles (spawnPowerUp e) = obstacles e"
  "activePowerUp (spawnPowerUp e) = activePowerUp e"
  "stats (spawnPowerUp e) = stats e"
  "lastFoodTime (spawnPowerUp e) = lastFoodTime e"
  "moveAccumulator (spawnPowerUp e) = moveAccumulator e"
  "currentSpeed (spawnPowerUp e) = currentSpeed e"
  "frameCount (spawnPowerUp e) = frameCount e"
  "spatialGrid (spawnPowerUp e) = spatialGrid e"
  "emitted (spawnPowerUp e) = emitted e"
  "clock (spawnPowerUp e) = clock e"
  "random_source (spawnPowerUp e) = random_source e"
  by (simp_all add: spawnPowerUp_def Let_def Math_random_def Date_now_def generateId_def case_prod_beta)

lemma generateObstacles_loop_frame [simp]:
  "state (generateObstacles_loop n c e) = state e"
  "config (generateObstacles_loop n c e) = config e"
  "snake (generateObstacles_loop n c e) = snake e"
  "food (generateObstacles_loop n c e) = food e"
  "powerUps (generateObstacles_loop n c e) = powerUps e"
  "activePowerUp (generateObstacles_loop n c e) = activePowerUp e"
  "stats (generateObstacles_loop n c e) = stats e"
  "lastFoodTime (generateObstacles_loop n c e) = lastFoodTime e"
  "moveAccumulator (generateObstacles_loop n c e) = moveAccumulator e"
  "currentSpeed (generateObstacles_loop n c e) = currentSpeed e"
  "frameCount (generateObstacles_loop n c e) = frameCount e"
  "spatialGrid (generateObstacles_loop n c e) = spatialGrid e"
  "emitted (generateObstacles_loop n c e) = emitted e"
  "clock (generateObstacles_loop n c e) = clock e"
  "random_source (generateObstacles_loop n c e) = random_source e"
  by (induction n arbitrary: e; simp add: Let_def Math_random_def Date_now_def generateId_def getRandomDirection_def case_prod_beta)+

lemma generateObstacles_frame [simp]:
  "state (generateObstacles e) = state e"
  "config (generateObstacles e) = config e"
  "snake (generateObstacles e) = snake e"
  "food (generateObstacles e) = food e"
  "powerUps (generateObstacles e) = powerUps e"
  "activePowerUp (generateObstacles e) = activePowerUp e"
  "stats (generateObstacles e) = stats e"
  "lastFoodTime (generateObstacles e) = lastFoodTime e"
  "moveAccumulator (generateObstacles e) = moveAccumulator e"
  "currentSpeed (generateObstacles e) = currentSpeed e"
  "frameCount (generateObstacles e) = frameCount e"
  "spatialGrid (generateObstacles e) = spatialGrid e"
  "emitted (generateObstacles e) = emitted e"
  "clock (generateObstacles e) = clock e"
  "random_source (generateObstacles e) = random_source e"
  by (simp_all add: generateObstacles_def Let_def)

lemma levelUp_frame [simp]:
  "state (levelUp n e) = state e"
  "config (levelUp n e) = config e"
  "snake (levelUp n e) = snake e"
  "food (levelUp n e) = food e"
  "powerUps (levelUp n e) = powerUps e"
  "activePowerUp (levelUp n e) = activePowerUp e"
  "lastFoodTime (levelUp n e) = lastFoodTime e"
  "moveAccumulator (levelUp n e) = moveAccumulator e"
  "frameCount (levelUp n e) = frameCount e"
  "spatialGrid (levelUp n e) = spatialGrid e"
  "clock (levelUp n e) = clock e"
  "random_source (levelUp n e) = random_source e"
  by (simp_all add: levelUp_def Let_def emitEvent_def)

lemma updateObstacles_frame [simp]:
  "state (updateObstacles e) = state e"
  "config (updateObstacles e) = config e"
  "snake (updateObstacles e) = snake e"
  "food (updateObstacles e) = food e"
  "powerUps (updateObstacles e) = powerUps e"
  "activePowerUp (updateObstacles e) = activePowerUp e"
  "stats (updateObstacles e) = stats e"
  "lastFoodTime (updateObstacles e) = lastFoodTime e"
  "moveAccumulator (updateObstacles e) = moveAccumulator e"
  "currentSpeed (updateObstacles e) = currentSpeed e"
  "frameCount (updateObstacles e) = frameCount e"
  "spatialGrid (updateObstacles e) = spatialGrid e"
  "emitted (updateObstacles e) = emitted e"
  "clock (updateObstacles e) = clock e"
  "clock_reads (updateObstacles e) = clock_reads e"
  "random_source (updateObstacles e) = random_source e"
  "random_reads (updateObstacles e) = random_reads e"
  by (simp_all add: updateObstacles_def)

lemma levelUp_stats [simp]: "stats (levelUp n e) = (stats e)\<lparr>level := n\<rparr>"
  by (simp add: levelUp_def Let_def emitEvent_def)

lemma levelUp_emitted [simp]: "emitted (levelUp n e) = emitted e @ [LEVEL_UP n]"
  by (simp add: levelUp_def Let_def emitEvent_def)


lemma eatFood_stages:
  "food e = Some f \<Longrightarrow>
   eatFood e = eatFood_powerUp (spawnFood (eatFood_level (eatFood_score f e)))"
  by (simp only: eatFood_def eatFood_score_def eatFood_level_def eatFood_powerUp_def Let_def
        case_prod_beta option.case)

lemma eatFood_None: "food e = None \<Longrightarrow> eatFood e = e"
  by (simp add: eatFood_def)

lemma eatFood_score_eq:
  "eatFood_score f e =
     (let c = (if clock e (clock_reads e) - lastFoodTime e < COMBO_TIME_WINDOW
               then min (combo (stats e) + 1) MAX_COMBO else 1);
          points = calculateScore (food_value f) c (level (stats e))
      in e\<lparr>clock_reads := Suc (clock_reads e),
            stats := (stats e)\<lparr>combo := c,
                                score := double_int (of_int (score (stats e)) + of_int points),
                                foodEaten := foodEaten (stats e) + 1\<rparr>,
            lastFoodTime := clock e (clock_reads e),
            emitted := emitted e @ [FOOD_EATEN (food_position f) points]\<rparr>)"
  by (simp add: eatFood_score_def Let_def Date_now_def emitEvent_def cong: if_cong)

lemma eatFood_score_frame [simp]:
  "state (eatFood_score f e) = state e"
  "config (eatFood_score f e) = config e"
  "snake (eatFood_score f e) = snake e"
  "food (eatFood_score f e) = food e"
  "powerUps (eatFood_score f e) = powerUps e"
  "obstacles (eatFood_score f e) = obstacles e"
  "activePowerUp (eatFood_score f e) = activePowerUp e"
  "moveAccumulator (eatFood_score f e) = moveAccumulator e"
  "currentSpeed (eatFood_score f e) = currentSpeed e"
  "frameCount (eatFood_score f e) = frameCount e"
  "spatialGrid (eatFood_score f e) = spatialGrid e"
  "clock (eatFood_score f e) = clock e"
  "random_source (eatFood_score f e) = random_source e"
  "random_reads (eatFood_score f e) = random_reads e"
  by (simp_all add: eatFood_score_eq Let_def)

lemma eatFood_level_frame [simp]:
  "state (eatFood_level e) = state e"
  "config (eatFood_level e) = config e"
  "snake (eatFood_level e) = snake e"
  "food (eatFood_level e) = food e"
  "powerUps (eatFood_level e) = powerUps e"
  "activePowerUp (eatFood_level e) = activePowerUp e"
  "lastFoodTime (eatFood_level e) = lastFoodTime e"
  "moveAccumulator (eatFood_level e) = moveAccumulator e"
  "frameCount (eatFood_level e) = frameCount e"
  "spatialGrid (eatFood_level e) = spatialGrid e"
  "clock (eatFood_level e) = clock e"
  "random_source (eatFood_level e) = random_source e"
  by (simp_all add: eatFood_level_def Let_def)

lemma eatFood_powerUp_frame [simp]:
  "state (eatFood_powerUp e) = state e"
  "config (eatFood_powerUp e) = config e"
  "snake (eatFood_powerUp e) = snake e"
  "food (eatFood_powerUp e) = food e"
  "obstacles (eatFood_powerUp e) = obstacles e"
  "activePowerUp (eatFood_powerUp e) = activePowerUp e"
  "stats (eatFood_powerUp e) = stats e"
  "lastFoodTime (eatFood_powerUp e) = lastFoodTime e"
  "moveAccumulator (eatFood_powerUp e) = moveAccumulator e"
  "currentSpeed (eatFood_powerUp e) = currentSpeed e"
  "frameCount (eatFood_powerUp e) = frameCount e"
  "spatialGrid (eatFood_powerUp e) = spatialGrid e"
  "emitted (eatFood_powerUp e) = emitted e"
  "clock (eatFood_powerUp e) = clock e"
  "random_source (eatFood_powerUp e) = random_source e"
  by (simp_all add: eatFood_powerUp_def Let_def Math_random_def case_prod_beta)

lemma eatFood_level_stats:
  "stats (eatFood_level e) =
     (stats e)\<lparr>level := (if calculateLevel (score (stats e)) LEVEL_UP_THRESHOLD > level (stats e)
                            then calculateLevel (score (stats e)) LEVEL_UP_THRESHOLD
                            else level (stats e))\<rparr>"
  by (simp add: eatFood_level_def Let_def)

lemma eatFood_frame [simp]:
  "state (eatFood e) = state e"
  "config (eatFood e) = config e"
  "snake (eatFood e) = snake e"
  "activePowerUp (eatFood e) = activePowerUp e"
  "moveAccumulator (eatFood e) = moveAccumulator e"
  "frameCount (eatFood e) = frameCount e"
  "spatialGrid (eatFood e) = spatialGrid e"
  "clock (eatFood e) = clock e"
  "random_source (eatFood e) = random_source e"
  by (cases "food e"; simp add: eatFood_None eatFood_stages)+

lemma eatFood_lastFoodTime:
  "food e = Some f \<Longrightarrow> lastFoodTime (eatFood e) = clock e (clock_reads e)"
  by (simp add: eatFood_stages eatFood_score_eq Let_def)

lemma eatFood_stats:
  "food e = Some f \<Longrightarrow>
   stats (eatFood e) =
     (let c = (if clock e (clock_reads e) - lastFoodTime e < COMBO_TIME_WINDOW
               then min (combo (stats e) + 1) MAX_COMBO else 1);
          sc = double_int (of_int (score (stats e))
                           + of_int (calculateScore (food_value f) c (level (stats e))));
          nl = calculateLevel sc LEVEL_UP_THRESHOLD
      in (stats e)\<lparr>combo := c, score := sc, foodEaten := foodEaten (stats e) + 1,
                    level := (if nl > level (stats e) then nl else level (stats e))\<rparr>)"
  by (simp add: eatFood_stages eatFood_level_stats eatFood_score_eq Let_def cong: if_cong)

lemma collectPowerUp_eq:
  "collectPowerUp p e =
     e\<lparr>stats := (stats e)\<lparr>powerUpsCollected := powerUpsCollected (stats e) + 1,
                          score := (if pu_type p = DOUBLE_POINTS
                                    then double_int (of_int (score (stats e)) * 2)
                                    else score (stats e))\<rparr>,
       powerUps := filter (\<lambda>q. pu_id q \<noteq> pu_id p) (powerUps e),
       clock_reads := Suc (clock_reads e),
       activePowerUp := Some \<lparr>ap_type = pu_type p, ap_duration = POWER_UP_DURATION,
                              ap_startTime = clock e (clock_reads e)\<rparr>,
       snake := (snake e)\<lparr>segments :=
                  (if pu_type p = SHRINK \<and> length (segments (snake e)) > 3
                   then take (nat \<lceil>(of_nat (length (segments (snake e))) :: rat) / 2\<rceil>)
                          (segments (snake e))
                   else segments (snake e))\<rparr>,
       currentSpeed := (if pu_type p = SPEED then max (currentSpeed e * (1 / 2)) 20
                        else if pu_type p = SLOW then min (currentSpeed e * 2) 300
                        else currentSpeed e),
       emitted := emitted e @ [POWER_UP_COLLECTED p]\<rparr>"
  by (cases "pu_type p")
     (simp_all add: collectPowerUp_def Let_def Date_now_def emitEvent_def)

lemma collectPowerUp_frame [simp]:
  "state (collectPowerUp p e) = state e"
  "config (collectPowerUp p e) = config e"
  "food (collectPowerUp p e) = food e"
  "obstacles (collectPowerUp p e) = obstacles e"
  "lastFoodTime (collectPowerUp p e) = lastFoodTime e"
  "moveAccumulator (collectPowerUp p e) = moveAccumulator e"
  "frameCount (collectPowerUp p e) = frameCount e"
  "spatialGrid (collectPowerUp p e) = spatialGrid e"
  "clock (collectPowerUp p e) = clock e"
  "random_source (collectPowerUp p e) = random_source e"
  "random_reads (collectPowerUp p e) = random_reads e"
  by (simp_all add: collectPowerUp_eq)

lemma collectPowerUp_snake [simp]:
  "snake_length (snake (collectPowerUp p e)) = snake_length (snake e)"
  "direction (snake (collectPowerUp p e)) = direction (snake e)"
  "nextDirection (snake (collectPowerUp p e)) = nextDirection (snake e)"
  by (simp_all add: collectPowerUp_eq)

lemma collectPowerUp_stats [simp]:
  "combo (stats (collectPowerUp p e)) = combo (stats e)"
  "foodEaten (stats (collectPowerUp p e)) = foodEaten (stats e)"
  "lives (stats (collectPowerUp p e)) = lives (stats e)"
  "level (stats (collectPowerUp p e)) = level (stats e)"
  "powerUpsCollected (stats (collectPowerUp p e)) = powerUpsCollected (stats e) + 1"
  by (simp_all add: collectPowerUp_eq)

lemma filterLive_snd: "snd (filterLive ps e) = e\<lparr>clock_reads := clock_reads e + length ps\<rparr>"
  by (induction ps arbitrary: e) (simp_all add: Let_def Date_now_def case_prod_beta)

lemma updatePowerUps_frame [simp]:
  "state (updatePowerUps dt e) = state e"
  "config (updatePowerUps dt e) = config e"
  "snake (updatePowerUps dt e) = snake e"
  "food (updatePowerUps dt e) = food e"
  "obstacles (updatePowerUps dt e) = obstacles e"
  "stats (updatePowerUps dt e) = stats e"
  "lastFoodTime (updatePowerUps dt e) = lastFoodTime e"
  "moveAccumulator (updatePowerUps dt e) = moveAccumulator e"
  "frameCount (updatePowerUps dt e) = frameCount e"
  "spatialGrid (updatePowerUps dt e) = spatialGrid e"
  "emitted (updatePowerUps dt e) = emitted e"
  "clock (updatePowerUps dt e) = clock e"
  "random_source (updatePowerUps dt e) = random_source e"
  "random_reads (updatePowerUps dt e) = random_reads e"
  by (simp_all add: updatePowerUps_def Let_def Date_now_def case_prod_beta filterLive_snd split: option.splits)

lemma handleDeath_frame [simp]:
  "config (handleDeath e) = config e"
  "food (handleDeath e) = food e"
  "powerUps (handleDeath e) = powerUps e"
  "obstacles (handleDeath e) = obstacles e"
  "activePowerUp (handleDeath e) = activePowerUp e"
  "lastFoodTime (handleDeath e) = lastFoodTime e"
  "moveAccumulator (handleDeath e) = moveAccumulator e"
  "currentSpeed (handleDeath e) = currentSpeed e"
  "frameCount (handleDeath e) = frameCount e"
  "spatialGrid (handleDeath e) = spatialGrid e"
  "clock (handleDeath e) = clock e"
  "clock_reads (handleDeath e) = clock_reads e"
  "random_source (handleDeath e) = random_source e"
  "random_reads (handleDeath e) = random_reads e"
  by (simp_all add: handleDeath_def gameOver_def resetSnakePosition_def emitEvent_def Let_def)

lemma handleDeath_stats [simp]:
  "stats (handleDeath e) = (stats e)\<lparr>lives := lives (stats e) - 1\<rparr>"
  by (simp add: handleDeath_def gameOver_def resetSnakePosition_def emitEvent_def Let_def)

lemma handleDeath_snake_length [simp]:
  "snake_length (snake (handleDeath e)) = snake_length (snake e)"
  by (simp add: handleDeath_def gameOver_def resetSnakePosition_def emitEvent_def Let_def)

lemma checkCollision_food_Some:
  "ctype (checkCollision e pos) = c_food \<Longrightarrow> \<exists>f. food e = Some f \<and> food_position f = pos"
  by (auto simp: checkCollision_def positionsEqual_iff split: if_splits option.splits)

lemma updatePowerUps_expire:
  assumes "activePowerUp e = Some a"
  shows "(ap_duration a \<le> clock e (clock_reads e + length (powerUps e)) - ap_startTime a \<longrightarrow>
            activePowerUp (updatePowerUps dt e) = None
            \<and> currentSpeed (updatePowerUps dt e) =
                (if ap_type a = SPEED
                 then min (currentSpeed e * 2) (sc_initial (SPEED_CONFIG (difficulty (config e))))
                 else if ap_type a = SLOW
                 then max (currentSpeed e * (1 / 2)) (sc_initial (SPEED_CONFIG (difficulty (config e))))
                 else currentSpeed e))
       \<and> (clock e (clock_reads e + length (powerUps e)) - ap_startTime a < ap_duration a \<longrightarrow>
            activePowerUp (updatePowerUps dt e) = Some a
            \<and> currentSpeed (updatePowerUps dt e) = currentSpeed e)"
  using assms
  by (simp add: updatePowerUps_def Let_def Date_now_def case_prod_beta filterLive_snd)

lemma updateGameLogic_snake_length:
  "updateGameLogic e = Inr e' \<Longrightarrow> snake_length (snake e') = snake_length (snake e)"
  by (auto simp: updateGameLogic_def Let_def
        split: list.splits option.splits if_splits CollisionData.splits)

lemma updateGameLogic_combo:
  assumes "updateGameLogic e = Inr e'"
  shows "foodEaten (stats e') = foodEaten (stats e) + 1
         \<or> (foodEaten (stats e') = foodEaten (stats e)
             \<and> lastFoodTime e' = lastFoodTime e \<and> combo (stats e') = combo (stats e))"
proof (cases "segments (snake e)")
  case Nil
  with assms show ?thesis by (simp add: updateGameLogic_def Let_def)
next
  case (Cons h t)
  let ?nh = "(fst h + fst (nextDirection (snake e)), snd h + snd (nextDirection (snake e)))"
  show ?thesis
  proof (cases "ctype (checkCollision e ?nh) = c_food")
    case True
    then obtain f where "food e = Some f" using checkCollision_food_Some by blast
    with assms Cons True show ?thesis
      by (auto simp: updateGameLogic_def Let_def eatFood_stats split: option.splits)
  next
    case False
    with assms Cons show ?thesis
      by (auto simp: updateGameLogic_def Let_def
            split: option.splits if_splits CollisionData.splits)
  qed
qed

lemma update_snake_length:
  "update dt e = Inr e' \<Longrightarrow> snake_length (snake e') = snake_length (snake e)"
  by (auto simp: update_def Let_def split: if_splits sum.splits
        dest!: updateGameLogic_snake_length)

lemma update_combo:
  assumes "update dt e = Inr e'"
  shows "foodEaten (stats e') = foodEaten (stats e) + 1
         \<or> (foodEaten (stats e') = foodEaten (stats e)
             \<and> lastFoodTime e' = lastFoodTime e \<and> combo (stats e') = combo (stats e))"
  using assms
  by (auto simp: update_def Let_def split: if_splits sum.splits
        dest!: updateGameLogic_combo)

section \<open>Collision classification\<close>

text \<open>
  C1. For every candidate head position \<^verbatim>\<open>checkCollision\<close> returns one classification, the
  first that applies in the order wall (outside \<open>[0, gridSize)\<close> on an axis), self (a snake
  segment), food (the live food), power-up (a live power-up), obstacle, none. In particular
  a position that is the food's or a power-up's is never classified as obstacle, also when
  an obstacle lies on the same cell.
\<close>

theorem checkCollision_precedence:
  "ctype (checkCollision e pos) =
     (if \<not> (0 \<le> fst pos \<and> fst pos < gridSize (config e)
             \<and> 0 \<le> snd pos \<and> snd pos < gridSize (config e)) then c_wall
      else if pos \<in> set (segments (snake e)) then c_self
      else if map_option food_position (food e) = Some pos then c_food
      else if pos \<in> pu_position ` set (powerUps e) then c_powerup
      else if pos \<in> ob_position ` set (obstacles e) then c_obstacle
      else c_none)
   \<and> ((map_option food_position (food e) = Some pos \<or> pos \<in> pu_position ` set (powerUps e))
        \<longrightarrow> ctype (checkCollision e pos) \<noteq> c_obstacle)"
proof -
  have seg: "(find (\<lambda>segment. positionsEqual pos segment) (segments (snake e)) = None)
               \<longleftrightarrow> pos \<notin> set (segments (snake e))"
    by (auto simp: find_None_forall positionsEqual_iff)
  have pu: "(find (\<lambda>powerUp. positionsEqual pos (pu_position powerUp)) (powerUps e) = None)
               \<longleftrightarrow> pos \<notin> pu_position ` set (powerUps e)"
    by (auto simp: find_None_forall positionsEqual_iff)
  have ob: "(find (\<lambda>obstacle. positionsEqual pos (ob_position obstacle)) (obstacles e) = None)
               \<longleftrightarrow> pos \<notin> ob_position ` set (obstacles e)"
    by (auto simp: find_None_forall positionsEqual_iff)
  have fd: "(case food e of None \<Rightarrow> False | Some f \<Rightarrow> positionsEqual pos (food_position f))
               \<longleftrightarrow> map_option food_position (food e) = Some pos"
    by (auto simp: positionsEqual_iff split: option.splits)
  show ?thesis
    unfolding checkCollision_def isInBounds_def fd
    using seg pu ob
    by (auto split: option.splits)
qed

theorem checkCollision_precedence_witness:
  "map_option food_position (food ghost_demo) = Some (0, 12)
   \<and> (0, 12) \<in> ob_position ` set (obstacles ghost_demo)
   \<and> ctype (checkCollision ghost_demo (0, 12)) = c_food
   \<and> ctype (checkCollision ghost_demo (0, 12)) \<noteq> c_obstacle"
  using checkCollision_precedence [of ghost_demo "(0, 12)"]
  by (simp add: ghost_demo_def demo_engine_def new_GameEngine_def demo_config_def
        initialSegments_eq)

section \<open>Death\<close>

text \<open>
  C2. A lethal collision (wall without ghost, self without invincible, obstacle without
  invincible and ghost) decrements \<open>lives\<close> by one and changes no other statistic, nor the
  food, nor the obstacles. If lives remain, the snake is put back on the three centred
  cells facing right, the engine state is kept and only the \<^verbatim>\<open>COLLISION\<close> event is emitted.
  If no life remains, the engine state becomes \<open>GAME_OVER\<close>, the \<^verbatim>\<open>GAME_OVER\<close> event
  carries the statistics as they are at that moment, and every later \<^verbatim>\<open>update\<close> leaves the
  engine as it is.
\<close>

theorem lethal_collision_death_policy:
  assumes "segments (snake e) = h # t"
    and "ctype (checkCollision e (fst h + fst (nextDirection (snake e)),
                                  snd h + snd (nextDirection (snake e)))) = c_wall
           \<and> activeType e \<noteq> Some GHOST
         \<or> ctype (checkCollision e (fst h + fst (nextDirection (snake e)),
                                  snd h + snd (nextDirection (snake e)))) = c_self
           \<and> activeType e \<noteq> Some INVINCIBLE
         \<or> ctype (checkCollision e (fst h + fst (nextDirection (snake e)),
                                  snd h + snd (nextDirection (snake e)))) = c_obstacle
           \<and> activeType e \<noteq> Some INVINCIBLE \<and> activeType e \<noteq> Some GHOST"
  shows "\<exists>e'. updateGameLogic e = Inr e'
           \<and> stats e' = (stats e)\<lparr>lives := lives (stats e) - 1\<rparr>
           \<and> food e' = food e
           \<and> obstacles e' = obstacles e
           \<and> (0 < lives (stats e') \<longrightarrow>
                 segments (snake e') =
                   [(gridSize (config e) div 2, gridSize (config e) div 2),
                    (gridSize (config e) div 2 - 1, gridSize (config e) div 2),
                    (gridSize (config e) div 2 - 2, gridSize (config e) div 2)]
                 \<and> direction (snake e') = (1, 0)
                 \<and> nextDirection (snake e') = (1, 0)
                 \<and> state e' = state e
                 \<and> emitted e' = emitted e @ [COLLISION ''death''])
           \<and> (lives (stats e') \<le> 0 \<longrightarrow>
                 state e' = GAME_OVER
                 \<and> emitted e' = emitted e @ [COLLISION ''death'', GAME_OVER_EVENT (stats e')]
                 \<and> (\<forall>dt. update dt e' = Inr e'))"
proof (cases "1 < lives (stats e)")
  case True
  then show ?thesis
    unfolding updateGameLogic_lethal [OF assms]
    by (simp add: handleDeath_respawn initialSegments_eq DIRECTIONS_RIGHT_def)
next
  case False
  then show ?thesis
    unfolding updateGameLogic_lethal [OF assms]
    by (simp add: handleDeath_gameOver update_not_playing)
qed

theorem lethal_collision_death_policy_witness:
  "(\<exists>e'. updateGameLogic wall_demo = Inr e'
          \<and> lives (stats e') = 2
          \<and> segments (snake e') = [(12, 12), (11, 12), (10, 12)]
          \<and> state e' = MENU)
   \<and> (\<exists>e'. updateGameLogic last_life_demo = Inr e'
          \<and> lives (stats e') = 0
          \<and> state e' = GAME_OVER
          \<and> emitted e' = [COLLISION ''death'', GAME_OVER_EVENT (stats e')])"
  using lethal_collision_death_policy [of wall_demo "(24, 12)" "[(23, 12), (22, 12)]"]
    lethal_collision_death_policy [of last_life_demo "(24, 12)" "[(23, 12), (22, 12)]"]
  by (auto simp: demo_defs)

section \<open>Ghost wrap\<close>

text \<open>
  C3. With the ghost effect active and the candidate head classified as wall, the new head
  is the candidate wrapped modulo \<open>gridSize\<close> on each axis and no death occurs: lives, the
  engine state and the emitted events are unchanged. With \<open>gridSize = 25\<close>, \<open>x = 25\<close>
  becomes \<open>0\<close> and \<open>x = -1\<close> becomes \<open>24\<close>.
\<close>

theorem ghost_wall_wraps_head:
  assumes "segments (snake e) = h # t"
    and "activeType e = Some GHOST"
    and "ctype (checkCollision e (fst h + fst (nextDirection (snake e)),
                                  snd h + snd (nextDirection (snake e)))) = c_wall"
    and "0 < gridSize (config e)"
  shows "(\<exists>e'. updateGameLogic e = Inr e'
            \<and> hd (segments (snake e')) =
                ((fst h + fst (nextDirection (snake e))) mod gridSize (config e),
                 (snd h + snd (nextDirection (snake e))) mod gridSize (config e))
            \<and> lives (stats e') = lives (stats e)
            \<and> state e' = state e
            \<and> emitted e' = emitted e)
         \<and> (gridSize (config e) = 25 \<longrightarrow>
               wrapPosition e (25, py) = Some (0, py mod 25)
               \<and> wrapPosition e (- 1, py) = Some (24, py mod 25))"
proof -
  have "gridSize (config e) = 25 \<longrightarrow>
          wrapPosition e (25, py) = Some (0, py mod 25)
          \<and> wrapPosition e (- 1, py) = Some (24, py mod 25)"
    by (simp add: wrapPosition_mod)
  then show ?thesis
    unfolding updateGameLogic_ghost_wall [OF assms] by simp
qed

theorem ghost_wall_wraps_head_witness:
  "activeType ghost_demo = Some GHOST
   \<and> ctype (checkCollision ghost_demo (25, 12)) = c_wall
   \<and> (\<exists>e'. updateGameLogic ghost_demo = Inr e'
          \<and> hd (segments (snake e')) = (0, 12)
          \<and> lives (stats e') = 3
          \<and> emitted e' = [])"
  using ghost_wall_wraps_head [of ghost_demo "(24, 12)" "[(23, 12), (22, 12)]" 0]
  by (auto simp: demo_defs)

text \<open>
  C9. In that case the wrapped head is put in front without a second classification,
  whatever lies on the wrapped cell: the tail is removed as in a normal move, and the food,
  the power-ups, the obstacles, the active effect, the statistics, the engine state and the
  emitted events are unchanged.
\<close>

theorem ghost_wrap_not_reclassified:
  assumes "segments (snake e) = h # t"
    and "activeType e = Some GHOST"
    and "ctype (checkCollision e (fst h + fst (nextDirection (snake e)),
                                  snd h + snd (nextDirection (snake e)))) = c_wall"
    and "0 < gridSize (config e)"
  shows "\<exists>e'. updateGameLogic e = Inr e'
           \<and> segments (snake e') =
                 ((fst h + fst (nextDirection (snake e))) mod gridSize (config e),
                  (snd h + snd (nextDirection (snake e))) mod gridSize (config e))
                 # butlast (segments (snake e))
           \<and> length (segments (snake e')) = length (segments (snake e))
           \<and> food e' = food e
           \<and> powerUps e' = powerUps e
           \<and> obstacles e' = obstacles e
           \<and> activePowerUp e' = activePowerUp e
           \<and> stats e' = stats e
           \<and> state e' = state e
           \<and> emitted e' = emitted e"
  unfolding updateGameLogic_ghost_wall [OF assms] using assms(1) by simp

theorem ghost_wrap_not_reclassified_witness:
  "map_option food_position (food ghost_demo) = Some (0, 12)
   \<and> (\<exists>e'. updateGameLogic ghost_demo = Inr e'
          \<and> segments (snake e') = [(0, 12), (24, 12), (23, 12)]
          \<and> food e' = food ghost_demo
          \<and> stats e' = stats ghost_demo
          \<and> emitted e' = [])"
  using ghost_wrap_not_reclassified [of ghost_demo "(24, 12)" "[(23, 12), (22, 12)]"]
  by (auto simp: demo_defs)

section \<open>Direction changes\<close>

text \<open>
  C8. \<^verbatim>\<open>changeDirection\<close> with the exact opposite of the snake's current direction changes
  nothing, so the queued \<open>nextDirection\<close> stays; with any other argument it sets
  \<open>nextDirection\<close> to the argument and changes nothing else.
\<close>

theorem changeDirection_opposite_ignored:
  "(d = exact_opposite (direction (snake e)) \<longrightarrow> changeDirection d e = e)
   \<and> (d \<noteq> exact_opposite (direction (snake e)) \<longrightarrow>
        changeDirection d e = e\<lparr>snake := (snake e)\<lparr>nextDirection := d\<rparr>\<rparr>)"
  by (auto simp: changeDirection_def areOppositeDirections_def exact_opposite_def prod_eq_iff)

theorem changeDirection_opposite_ignored_witness:
  "direction (snake demo_engine) = (1, 0)
   \<and> changeDirection (- 1, 0) demo_engine = demo_engine
   \<and> nextDirection (snake (changeDirection (0, - 1) demo_engine)) = (0, - 1)"
  using changeDirection_opposite_ignored [of "(- 1, 0)" demo_engine]
    changeDirection_opposite_ignored [of "(0, - 1)" demo_engine]
  by (simp add: exact_opposite_def demo_engine_def new_GameEngine_def DIRECTIONS_RIGHT_def)

section \<open>Scoring\<close>

lemma fl_16: "fl 16 = 16"
  by code_simp

lemma update_idle:
  assumes "state e = PLAYING" and "fl (moveAccumulator e + dt) < currentSpeed e"
  shows "\<exists>e'. update dt e = Inr e' \<and> foodEaten (stats e') = foodEaten (stats e)"
  using assms by (simp add: update_def Let_def)










text \<open>
  From \<open>2 ^ 53\<close> on the sum itself is rounded. At a score of \<open>2 ^ 53 + 100\<close>, on level
  \<open>90071992547411\<close>, the points are \<open>90071992547421\<close> and the score grows by
  \<open>90071992547420\<close>.
\<close>

lemma score_addition_rounds:
  "score (stats big_score_demo) = 2 ^ 53 + 100
   \<and> calculateScore 10 1 (level (stats big_score_demo)) = 90071992547421
   \<and> score (stats (eatFood big_score_demo)) - score (stats big_score_demo) = 90071992547420"
proof -
  let ?f = "\<lparr>food_position = (13, 12), food_value = 10, food_type = food_normal\<rparr>"
  have f: "food big_score_demo = Some ?f"
    by (simp add: big_score_demo_def)
  have v: "clock big_score_demo (clock_reads big_score_demo) = 0"
    "lastFoodTime big_score_demo = - 5000"
    "combo (stats big_score_demo) = 1" "level (stats big_score_demo) = 90071992547411"
    "score (stats big_score_demo) = 9007199254741092"
    by (simp_all add: big_score_demo_def demo_engine_def new_GameEngine_def)
  have p: "calculateScore 10 1 90071992547411 = 90071992547421"
    by code_simp
  have s: "double_int 9097271247288513 = 9097271247288512"
    by code_simp
  have c: "combo (stats (eatFood big_score_demo)) = 1"
    by (simp add: eatFood_stats [OF f] Let_def v COMBO_TIME_WINDOW_def)
  have "score (stats (eatFood big_score_demo)) = 9097271247288512"
    using c by (simp add: eatFood_stats [OF f] Let_def v COMBO_TIME_WINDOW_def p s)
  then show ?thesis
    by (simp add: v p)
qed

text \<open>
  C5. At a food pickup the combo becomes \<open>combo + 1\<close>, capped at \<open>20\<close>, when the clock is
  less than \<open>2000\<close> ms after \<open>lastFoodTime\<close>, and \<open>1\<close> otherwise; \<open>lastFoodTime\<close>
  becomes the clock reading of the pickup. An \<^verbatim>\<open>update\<close> in which no food is eaten leaves
  \<open>lastFoodTime\<close> and the combo as they are, so that at the next pickup \<open>lastFoodTime\<close> is
  the time of the previous one.
\<close>

theorem combo_law:
  "(food e = Some f \<longrightarrow>
      combo (stats (eatFood e)) =
        (if clock e (clock_reads e) - lastFoodTime e < 2000
         then min (combo (stats e) + 1) 20 else 1)
      \<and> lastFoodTime (eatFood e) = clock e (clock_reads e))
   \<and> (update dt e = Inr e' \<and> foodEaten (stats e') = foodEaten (stats e) \<longrightarrow>
        lastFoodTime e' = lastFoodTime e \<and> combo (stats e') = combo (stats e))"
proof -
  have "update dt e = Inr e' \<and> foodEaten (stats e') = foodEaten (stats e) \<longrightarrow>
        lastFoodTime e' = lastFoodTime e \<and> combo (stats e') = combo (stats e)"
    using update_combo [of dt e e'] by auto
  then show ?thesis
    by (simp add: eatFood_stats eatFood_lastFoodTime Let_def COMBO_TIME_WINDOW_def MAX_COMBO_def)
qed

theorem combo_law_witness:
  "combo (stats (eatFood eat_demo)) = 1
   \<and> combo (stats (eatFood (eat_demo\<lparr>lastFoodTime := - 1000\<rparr>))) = 2
   \<and> lastFoodTime (eatFood eat_demo) = 0
   \<and> (\<exists>e'. update 16 eat_demo = Inr e' \<and> lastFoodTime e' = - 5000 \<and> combo (stats e') = 1)"
proof -
  let ?f = "\<lparr>food_position = (13, 12), food_value = 10, food_type = food_normal\<rparr>"
  have f: "food eat_demo = Some ?f" "food (eat_demo\<lparr>lastFoodTime := - 1000\<rparr>) = Some ?f"
    by (simp_all add: eat_demo_def)
  have v: "clock eat_demo (clock_reads eat_demo) = 0" "lastFoodTime eat_demo = - 5000"
    "combo (stats eat_demo) = 1" "state eat_demo = PLAYING"
    "moveAccumulator eat_demo = 0" "currentSpeed eat_demo = 100"
    by (simp_all add: eat_demo_def demo_engine_def new_GameEngine_def demo_config_def)
  obtain e' where u: "update 16 eat_demo = Inr e'"
    and fe: "foodEaten (stats e') = foodEaten (stats eat_demo)"
    using update_idle [of eat_demo 16] by (auto simp: v fl_16)
  have "lastFoodTime e' = - 5000 \<and> combo (stats e') = 1"
    using combo_law [of eat_demo ?f 16 e'] u fe by (simp add: v)
  then show ?thesis
    using combo_law [of eat_demo ?f 16 e'] u f(1) v
      combo_law [of "eat_demo\<lparr>lastFoodTime := - 1000\<rparr>" ?f 16 e'] f(2)
    by simp
qed

section \<open>Speed and slow effects\<close>

text \<open>
  C6, as the code has it. Collecting a speed power-up sets the move interval to
  \<open>max (interval / 2) 20\<close>, collecting a slow power-up to \<open>min (interval * 2) 300\<close>, and
  the active effect becomes the collected type with duration \<open>5000\<close>. When
  \<^verbatim>\<open>updatePowerUps\<close> reads a clock value at least the duration after the start of the
  effect, the slot becomes empty, and the interval becomes \<open>min (interval * 2) base\<close> after
  a speed effect and \<open>max (interval / 2) base\<close> after a slow effect, \<open>base\<close> being the
  initial interval of the difficulty. Before that the slot and the interval are unchanged.
  So the engine does not keep the interval it changed: when the effect ends at the first
  \<^verbatim>\<open>updatePowerUps\<close> after the pickup, a speed pickup at an interval from \<open>40\<close> to
  \<open>base\<close> is undone, and a slow pickup at an interval up to \<open>base\<close> ends at \<open>base\<close>.
\<close>

theorem speed_slow_effects:
  "(pu_type p = SPEED \<longrightarrow> currentSpeed (collectPowerUp p e) = max (currentSpeed e / 2) 20)
   \<and> (pu_type p = SLOW \<longrightarrow> currentSpeed (collectPowerUp p e) = min (currentSpeed e * 2) 300)
   \<and> activePowerUp (collectPowerUp p e) =
        Some \<lparr>ap_type = pu_type p, ap_duration = 5000, ap_startTime = clock e (clock_reads e)\<rparr>
   \<and> (activePowerUp e = Some a
        \<and> ap_duration a \<le> clock e (clock_reads e + length (powerUps e)) - ap_startTime a \<longrightarrow>
        activePowerUp (updatePowerUps dt e) = None
        \<and> currentSpeed (updatePowerUps dt e) =
            (if ap_type a = SPEED
             then min (currentSpeed e * 2) (sc_initial (SPEED_CONFIG (difficulty (config e))))
             else if ap_type a = SLOW
             then max (currentSpeed e / 2) (sc_initial (SPEED_CONFIG (difficulty (config e))))
             else currentSpeed e))
   \<and> (activePowerUp e = Some a
        \<and> clock e (clock_reads e + length (powerUps e)) - ap_startTime a < ap_duration a \<longrightarrow>
        activePowerUp (updatePowerUps dt e) = Some a
        \<and> currentSpeed (updatePowerUps dt e) = currentSpeed e)
   \<and> (5000 \<le> clock e (Suc (clock_reads e)
                          + length (filter (\<lambda>q. pu_id q \<noteq> pu_id p) (powerUps e)))
               - clock e (clock_reads e) \<longrightarrow>
        (pu_type p = SPEED \<and> 40 \<le> currentSpeed e
           \<and> currentSpeed e \<le> sc_initial (SPEED_CONFIG (difficulty (config e))) \<longrightarrow>
           currentSpeed (updatePowerUps dt (collectPowerUp p e)) = currentSpeed e)
        \<and> (pu_type p = SLOW
           \<and> currentSpeed e \<le> sc_initial (SPEED_CONFIG (difficulty (config e))) \<longrightarrow>
           currentSpeed (updatePowerUps dt (collectPowerUp p e))
             = sc_initial (SPEED_CONFIG (difficulty (config e)))))"
proof -
  let ?e1 = "collectPowerUp p e"
  let ?a1 = "\<lparr>ap_type = pu_type p, ap_duration = 5000,
              ap_startTime = clock e (clock_reads e)\<rparr>"
  let ?base = "sc_initial (SPEED_CONFIG (difficulty (config e)))"
  have a1: "activePowerUp ?e1 = Some ?a1"
    by (simp add: collectPowerUp_eq POWER_UP_DURATION_def)
  have f1: "clock_reads ?e1 = Suc (clock_reads e)"
    "powerUps ?e1 = filter (\<lambda>q. pu_id q \<noteq> pu_id p) (powerUps e)"
    "currentSpeed ?e1 = (if pu_type p = SPEED then max (currentSpeed e / 2) 20
                         else if pu_type p = SLOW then min (currentSpeed e * 2) 300
                         else currentSpeed e)"
    by (simp_all add: collectPowerUp_eq)
  have trip: "currentSpeed (updatePowerUps dt ?e1) =
                (if pu_type p = SPEED then min (currentSpeed ?e1 * 2) ?base
                 else if pu_type p = SLOW then max (currentSpeed ?e1 / 2) ?base
                 else currentSpeed ?e1)"
    if "5000 \<le> clock e (Suc (clock_reads e)
                          + length (filter (\<lambda>q. pu_id q \<noteq> pu_id p) (powerUps e)))
               - clock e (clock_reads e)"
    using updatePowerUps_expire [OF a1, of dt] that by (simp add: f1(1,2))
  have single: "(activePowerUp e = Some a
        \<and> ap_duration a \<le> clock e (clock_reads e + length (powerUps e)) - ap_startTime a \<longrightarrow>
        activePowerUp (updatePowerUps dt e) = None
        \<and> currentSpeed (updatePowerUps dt e) =
            (if ap_type a = SPEED then min (currentSpeed e * 2) ?base
             else if ap_type a = SLOW then max (currentSpeed e / 2) ?base
             else currentSpeed e))
   \<and> (activePowerUp e = Some a
        \<and> clock e (clock_reads e + length (powerUps e)) - ap_startTime a < ap_duration a \<longrightarrow>
        activePowerUp (updatePowerUps dt e) = Some a
        \<and> currentSpeed (updatePowerUps dt e) = currentSpeed e)"
    using updatePowerUps_expire [of e a dt] by simp
  show ?thesis
    using single trip a1 by (auto simp: f1(3))
qed

theorem speed_slow_effects_witness:
  "currentSpeed demo_engine = 100
   \<and> currentSpeed (collectPowerUp speed_demo demo_engine) = 50
   \<and> currentSpeed (collectPowerUp slow_demo demo_engine) = 200
   \<and> activePowerUp (updatePowerUps 16 (collectPowerUp speed_demo demo_engine))
       = Some \<lparr>ap_type = SPEED, ap_duration = 5000, ap_startTime = 0\<rparr>
   \<and> currentSpeed (updatePowerUps 16 (collectPowerUp speed_demo demo_engine)) = 50
   \<and> activePowerUp (updatePowerUps 16 speed_active_demo) = None
   \<and> currentSpeed (updatePowerUps 16 speed_active_demo) = 100
   \<and> currentSpeed level2_demo = 96
   \<and> currentSpeed (updatePowerUps 16 (collectPowerUp speed_demo level2_demo)) = 96
   \<and> currentSpeed (updatePowerUps 16 (collectPowerUp slow_demo level2_demo)) = 100"
proof -
  have c: "activePowerUp (collectPowerUp speed_demo demo_engine)
             = Some \<lparr>ap_type = SPEED, ap_duration = 5000, ap_startTime = 0\<rparr>"
    "clock (collectPowerUp speed_demo demo_engine) = (\<lambda>n. 0)"
    by (simp_all add: collectPowerUp_eq speed_demo_def demo_engine_def new_GameEngine_def
          POWER_UP_DURATION_def)
  show ?thesis
    using speed_slow_effects [where p = speed_demo and e = demo_engine]
      speed_slow_effects [where p = slow_demo and e = demo_engine]
      speed_slow_effects [where e = "collectPowerUp speed_demo demo_engine" and dt = 16
        and a = "\<lparr>ap_type = SPEED, ap_duration = 5000, ap_startTime = 0\<rparr>"]
      speed_slow_effects [where e = speed_active_demo and dt = 16
        and a = "\<lparr>ap_type = SPEED, ap_duration = 5000, ap_startTime = - 5000\<rparr>"]
      speed_slow_effects [where p = speed_demo and e = level2_demo and dt = 16]
      speed_slow_effects [where p = slow_demo and e = level2_demo and dt = 16]
      c
    by (simp add: speed_demo_def slow_demo_def speed_active_demo_def level2_demo_def
          demo_engine_def new_GameEngine_def demo_config_def)
qed

text \<open>
  As the claim states it, it fails: the slow reversal does not halve the interval back when
  the half is under the base. On normal difficulty at level 2 the interval is \<open>96\<close>; a slow
  pickup doubles it to \<open>192\<close>, and the end of the effect makes it \<open>100\<close>, not \<open>96\<close>.
\<close>

theorem slow_reversal_counterexample:
  "currentSpeed level2_demo = 96
   \<and> currentSpeed (collectPowerUp slow_demo level2_demo) = 192
   \<and> activePowerUp (updatePowerUps 16 (collectPowerUp slow_demo level2_demo)) = None
   \<and> currentSpeed (updatePowerUps 16 (collectPowerUp slow_demo level2_demo)) = 100
   \<and> currentSpeed (updatePowerUps 16 (collectPowerUp slow_demo level2_demo))
       \<noteq> currentSpeed (collectPowerUp slow_demo level2_demo) / 2"
proof -
  let ?e1 = "collectPowerUp slow_demo level2_demo"
  have v: "currentSpeed level2_demo = 96" "clock_reads level2_demo = 0"
    "clock level2_demo = (\<lambda>n. if n = 0 then 0 else 5000)" "powerUps level2_demo = []"
    "difficulty (config level2_demo) = NORMAL" "pu_type slow_demo = SLOW"
    by (simp_all add: level2_demo_def slow_demo_def speed_demo_def demo_engine_def
          new_GameEngine_def demo_config_def)
  have a1: "activePowerUp ?e1 = Some \<lparr>ap_type = SLOW, ap_duration = 5000, ap_startTime = 0\<rparr>"
    and f1: "clock_reads ?e1 = 1" "powerUps ?e1 = []" "currentSpeed ?e1 = 192"
    by (simp_all add: collectPowerUp_eq v POWER_UP_DURATION_def)
  show ?thesis
    using updatePowerUps_expire [OF a1, of 16] by (simp add: f1 v)
qed

text \<open>
  The floor of the speed pickup is above the lowest interval of the insane difficulty: an
  interval of \<open>15\<close> is raised to \<open>20\<close> by a speed pickup.
\<close>

lemma speed_floor_example:
  assumes "pu_type p = SPEED" and "currentSpeed e = 15"
  shows "currentSpeed (collectPowerUp p e) = 20"
  using assms by (simp add: collectPowerUp_eq)

section \<open>The length field of the snake\<close>

lemma init_snake:
  "snake (init e) = \<lparr>segments = initialSegments (gridSize (config e)),
                      direction = DIRECTIONS_RIGHT, nextDirection = DIRECTIONS_RIGHT,
                      snake_length = INITIAL_SNAKE_LENGTH\<rparr>"
  by (simp add: init_def reset_def Let_def Date_now_def case_prod_beta)

lemma init_fields:
  "config (init e) = config e"
  "state (init e) = state e"
  "moveAccumulator (init e) = 0"
  "currentSpeed (init e) = sc_initial (SPEED_CONFIG (difficulty (config e)))"
  by (simp_all add: init_def reset_def Let_def Date_now_def case_prod_beta)

lemma reachable_snake_length: "reachable e \<Longrightarrow> snake_length (snake e) = INITIAL_SNAKE_LENGTH"
proof (induction rule: reachable.induct)
  case (reachable_new cfg clk rnd)
  show ?case by (simp add: new_GameEngine_def)
next
  case (reachable_init e)
  show ?case by (simp add: init_snake)
next
  case (reachable_update e deltaTime e')
  then show ?case by (simp add: update_snake_length)
next
  case (reachable_changeDirection e dir)
  then show ?case by (simp add: changeDirection_def)
next
  case (reachable_setState e s)
  then show ?case by (simp add: setState_def)
qed

lemma fl_150: "fl 150 = 150"
  by code_simp

lemma small_food:
  "map_option food_position (food (init (new_GameEngine small_config (\<lambda>n. 0) (\<lambda>n. 7 / 8))))
     = Some (3, 2)"
  unfolding small_config_def by code_simp

lemma updateGameLogic_food:
  assumes "segments (snake e) = h # t"
    and "ctype (checkCollision e (fst h + fst (nextDirection (snake e)),
                                  snd h + snd (nextDirection (snake e)))) = c_food"
  shows "updateGameLogic e =
           Inr (updateSpatialGrid (eatFood
                  (e\<lparr>snake := (snake e)\<lparr>direction := nextDirection (snake e),
                        segments := (fst h + fst (nextDirection (snake e)),
                                     snd h + snd (nextDirection (snake e))) # h # t\<rparr>\<rparr>)))"
  using assms by (simp add: updateGameLogic_def Let_def)

lemma update_eats:
  assumes "state e = PLAYING"
    and "currentSpeed e \<le> fl (moveAccumulator e + dt)"
    and "segments (snake e) = h # t"
    and "ctype (checkCollision e (fst h + fst (nextDirection (snake e)),
                                  snd h + snd (nextDirection (snake e)))) = c_food"
  shows "\<exists>e'. update dt e = Inr e'
            \<and> segments (snake e') = (fst h + fst (nextDirection (snake e)),
                                     snd h + snd (nextDirection (snake e))) # h # t"
proof -
  let ?e1 = "e\<lparr>stats := (stats e)\<lparr>timeElapsed := fl (timeElapsed (stats e) + dt)\<rparr>,
                moveAccumulator := 0\<rparr>"
  have c: "checkCollision ?e1 pos = checkCollision e pos" for pos
    by (rule checkCollision_same_fields) simp_all
  have "updateGameLogic ?e1 =
          Inr (updateSpatialGrid (eatFood
                  (?e1\<lparr>snake := (snake ?e1)\<lparr>direction := nextDirection (snake ?e1),
                        segments := (fst h + fst (nextDirection (snake ?e1)),
                                     snd h + snd (nextDirection (snake ?e1))) # h # t\<rparr>\<rparr>)))"
    by (rule updateGameLogic_food) (simp_all add: assms c)
  then show ?thesis
    using assms(1,2) by (simp add: update_def Let_def)
qed

lemma small_start_grows:
  "\<exists>e'. update 150 small_start = Inr e' \<and> segments (snake e') = [(3, 2), (2, 2), (1, 2), (0, 2)]"
proof -
  have seg: "segments (snake small_start) = (2, 2) # [(1, 2), (0, 2)]"
    by (simp add: small_start_def setState_def init_snake new_GameEngine_def small_config_def
          initialSegments_eq)
  have nd: "nextDirection (snake small_start) = (1, 0)"
    by (simp add: small_start_def setState_def init_snake DIRECTIONS_RIGHT_def)
  have cfg: "gridSize (config small_start) = 4"
    by (simp add: small_start_def setState_def init_fields new_GameEngine_def small_config_def)
  have fd: "map_option food_position (food small_start) = Some (3, 2)"
    using small_food by (simp add: small_start_def setState_def)
  have c: "ctype (checkCollision small_start (fst (2, 2) + fst (nextDirection (snake small_start)),
             snd (2, 2) + snd (nextDirection (snake small_start)))) = c_food"
    using fd by (auto simp: nd checkCollision_def isInBounds_def cfg seg positionsEqual_def
                  split: option.splits)
  have sp: "currentSpeed small_start = 100" "moveAccumulator small_start = 0"
    by (simp_all add: small_start_def setState_def init_fields new_GameEngine_def
          small_config_def)
  have st: "state small_start = PLAYING"
    by (simp add: small_start_def setState_def)
  have due: "currentSpeed small_start \<le> fl (moveAccumulator small_start + 150)"
    by (simp add: sp fl_150)
  show ?thesis
    using update_eats [OF st due seg c] by (simp add: nd)
qed

lemma reachable_small_start: "reachable small_start"
  unfolding small_start_def
  by (rule reachable_setState, rule reachable_init, rule reachable_new)

text \<open>
  C10. The field \<open>length\<close> of the snake is written by the constructor and by
  \<^verbatim>\<open>reset\<close> only: in every state reachable through the public operations
  \<^verbatim>\<open>getSnake().length\<close> is \<open>3\<close>. It does not follow the number of segments: a reachable
  state has four segments.
\<close>

theorem snake_length_field_constant:
  "(reachable e \<longrightarrow> snake_length (getSnake e) = 3)
   \<and> (\<exists>e'. reachable e' \<and> snake_length (getSnake e') = 3
            \<and> length (segments (getSnake e')) = 4)"
proof -
  obtain e' where u: "update 150 small_start = Inr e'"
    and s: "segments (snake e') = [(3, 2), (2, 2), (1, 2), (0, 2)]"
    using small_start_grows by blast
  have r: "reachable e'"
    using reachable_small_start u by (rule reachable_update)
  then have "snake_length (snake e') = 3"
    using reachable_snake_length by (simp add: INITIAL_SNAKE_LENGTH_def)
  with r s have "\<exists>e'. reachable e' \<and> snake_length (getSnake e') = 3
            \<and> length (segments (getSnake e')) = 4"
    by (auto simp: getSnake_def)
  then show ?thesis
    using reachable_snake_length [of e] by (simp add: getSnake_def INITIAL_SNAKE_LENGTH_def)
qed

theorem snake_length_field_constant_witness:
  "reachable small_start \<and> snake_length (getSnake small_start) = 3"
  using snake_length_field_constant [of small_start] reachable_small_start by simp

section \<open>Snapshots\<close>

lemma apply_write_length [simp]: "length (apply_write w h) = length h"
  by (simp add: apply_write_def)

lemma apply_write_other: "a \<noteq> write_target w \<Longrightarrow> apply_write w h ! a = h ! a"
  by (simp add: apply_write_def)

lemma fold_apply_write_length [simp]: "length (fold apply_write ws h) = length h"
  by (induction ws arbitrary: h) simp_all

lemma fold_apply_write_other:
  "list_all (\<lambda>w. write_target w = t) ws \<Longrightarrow> a \<noteq> t \<Longrightarrow> fold apply_write ws h ! a = h ! a"
  by (induction ws arbitrary: h) (simp_all add: apply_write_other)

lemma closed_heap_refs:
  "closed_heap h \<Longrightarrow> a < length h \<Longrightarrow> b \<in> set (refs_of (h ! a)) \<Longrightarrow> b < length h"
  by (auto simp: closed_heap_def list_all_iff)

lemma refs_of_object: "kv \<in> set fs \<Longrightarrow> set (refs_of_val (snd kv)) \<subseteq> set (refs_of (JObject fs))"
  by auto

lemma refs_of_array: "v \<in> set xs \<Longrightarrow> set (refs_of_val v) \<subseteq> set (refs_of (JArray xs))"
  by auto

lemma deep_read_agree:
  assumes cl: "closed_heap h"
    and ag: "\<And>a. a < length h \<Longrightarrow> a < length h' \<and> h' ! a = h ! a"
  shows "\<forall>b\<in>set (refs_of_val v). b < length h \<Longrightarrow> deep_read n h' v = deep_read n h v"
proof (induction n arbitrary: v)
  case 0
  show ?case by simp
next
  case (Suc n)
  show ?case
  proof (cases v)
    case (JRef a)
    with Suc.prems have a: "a < length h" by simp
    then have a': "a < length h'" and eq: "h' ! a = h ! a" using ag by auto
    have sub: "\<And>w. set (refs_of_val w) \<subseteq> set (refs_of (h ! a))
                 \<Longrightarrow> deep_read n h' w = deep_read n h w"
      using closed_heap_refs [OF cl a] by (intro Suc.IH) auto
    show ?thesis
    proof (cases "h ! a")
      case (JObject fs)
      have "map (\<lambda>kv. (fst kv, deep_read n h' (snd kv))) fs
              = map (\<lambda>kv. (fst kv, deep_read n h (snd kv))) fs"
        using sub refs_of_object [of _ fs] by (auto simp: JObject)
      then show ?thesis by (simp add: JRef a a' eq JObject)
    next
      case (JArray xs)
      have "map (deep_read n h') xs = map (deep_read n h) xs"
        using sub refs_of_array [of _ xs] by (auto simp: JArray)
      then show ?thesis by (simp add: JRef a a' eq JArray)
    qed
  qed simp_all
qed

lemma engine_view_agree:
  assumes "wf_engine r h"
    and "\<And>a. a < length h \<Longrightarrow> a < length h' \<and> h' ! a = h ! a"
  shows "engine_view r h' = engine_view r h"
  using assms
  by (auto simp: engine_view_def wf_engine_def list_all_iff intro!: deep_read_agree)

lemma flat_copy_reach:
  assumes "a < length h" and "flat (h ! a)"
  shows "snd (spread_copy a h) = JRef (length h)
         \<and> reach n (fst (spread_copy a h)) (length h) = [length h]"
  using assms by (cases n) (simp_all add: spread_copy_def flat_def)

lemma getter_result:
  assumes "wf_engine r h" and "g \<in> set snapshot_getters"
  shows "snd (g r h) = JNull \<and> fst (g r h) = h
         \<or> (\<exists>a\<in>set (engine_roots r). snd (g r h) = JRef (length h)
                \<and> fst (g r h) = h @ [h ! a])"
  using assms
  by (auto simp: snapshot_getters_def store_getSnake_def store_getFood_def
        store_getPowerUps_def store_getObstacles_def store_getActivePowerUp_def
        store_getStats_def store_getConfig_def spread_copy_def wf_engine_def
        engine_roots_def split: option.splits)

text \<open>
  C7, as the code has it. A getter returns a fresh top-level copy: either \<^verbatim>\<open>null\<close> and
  the store as it was, or a reference to a new cell at the end of the store that holds the
  properties (the elements) of the engine's cell. Whatever a reader writes to the own
  properties of the returned object, or to the own slots of the returned array, the state
  the engine reads is unchanged. The statistics, the configuration and the active effect
  hold primitive values only, so through their snapshots a reader reaches no cell but the
  snapshot. The cells below the top level of the other snapshots are the engine's own.
\<close>

theorem snapshot_top_level_copy:
  assumes "wf_engine r h"
  shows "store_getSnake r h = (h @ [h ! snake_ref r], JRef (length h))
         \<and> store_getFood r h =
             (case food_ref r of None \<Rightarrow> (h, JNull)
              | Some a \<Rightarrow> (h @ [h ! a], JRef (length h)))
         \<and> store_getPowerUps r h = (h @ [h ! powerUps_ref r], JRef (length h))
         \<and> store_getObstacles r h = (h @ [h ! obstacles_ref r], JRef (length h))
         \<and> store_getActivePowerUp r h =
             (case activePowerUp_ref r of None \<Rightarrow> (h, JNull)
              | Some a \<Rightarrow> (h @ [h ! a], JRef (length h)))
         \<and> store_getStats r h = (h @ [h ! stats_ref r], JRef (length h))
         \<and> store_getConfig r h = (h @ [h ! config_ref r], JRef (length h))
         \<and> (g \<in> set snapshot_getters
              \<and> list_all (\<lambda>w. JRef (write_target w) = snd (g r h)) ws \<longrightarrow>
              engine_view r (fold apply_write ws (fst (g r h))) = engine_view r h)
         \<and> (flat (h ! stats_ref r) \<longrightarrow>
              reach n (fst (store_getStats r h)) (length h) = [length h])
         \<and> (flat (h ! config_ref r) \<longrightarrow>
              reach n (fst (store_getConfig r h)) (length h) = [length h])
         \<and> (activePowerUp_ref r = Some a \<and> flat (h ! a) \<longrightarrow>
              reach n (fst (store_getActivePowerUp r h)) (length h) = [length h])"
proof -
  have roots: "snake_ref r < length h" "powerUps_ref r < length h"
    "obstacles_ref r < length h" "stats_ref r < length h" "config_ref r < length h"
    "\<And>b. food_ref r = Some b \<Longrightarrow> b < length h"
    "\<And>b. activePowerUp_ref r = Some b \<Longrightarrow> b < length h"
    using assms by (auto simp: wf_engine_def engine_roots_def)
  have copies: "store_getSnake r h = (h @ [h ! snake_ref r], JRef (length h))"
    "store_getFood r h =
       (case food_ref r of None \<Rightarrow> (h, JNull) | Some a \<Rightarrow> (h @ [h ! a], JRef (length h)))"
    "store_getPowerUps r h = (h @ [h ! powerUps_ref r], JRef (length h))"
    "store_getObstacles r h = (h @ [h ! obstacles_ref r], JRef (length h))"
    "store_getActivePowerUp r h =
       (case activePowerUp_ref r of None \<Rightarrow> (h, JNull)
        | Some a \<Rightarrow> (h @ [h ! a], JRef (length h)))"
    "store_getStats r h = (h @ [h ! stats_ref r], JRef (length h))"
    "store_getConfig r h = (h @ [h ! config_ref r], JRef (length h))"
    using roots
    by (simp_all add: store_getSnake_def store_getFood_def store_getPowerUps_def
          store_getObstacles_def store_getActivePowerUp_def store_getStats_def
          store_getConfig_def spread_copy_def split: option.splits)
  have view: "engine_view r (fold apply_write ws (fst (g r h))) = engine_view r h"
    if g: "g \<in> set snapshot_getters"
      and ws: "list_all (\<lambda>w. JRef (write_target w) = snd (g r h)) ws"
  proof -
    from getter_result [OF assms g]
    consider "snd (g r h) = JNull" "fst (g r h) = h"
      | ob where "snd (g r h) = JRef (length h)" "fst (g r h) = h @ [ob]"
      by blast
    then show ?thesis
    proof cases
      case 1
      with ws have "ws = []" by (cases ws) simp_all
      with 1 show ?thesis by simp
    next
      case 2
      with ws have t: "list_all (\<lambda>w. write_target w = length h) ws"
        by (simp add: list_all_iff)
      show ?thesis
      proof (rule engine_view_agree [OF assms])
        fix b assume b: "b < length h"
        then show "b < length (fold apply_write ws (fst (g r h)))
                     \<and> fold apply_write ws (fst (g r h)) ! b = h ! b"
          using fold_apply_write_other [OF t, of b "fst (g r h)"] 2
          by (simp add: nth_append)
      qed
    qed
  qed
  have flats: "(flat (h ! stats_ref r) \<longrightarrow>
              reach n (fst (store_getStats r h)) (length h) = [length h])
         \<and> (flat (h ! config_ref r) \<longrightarrow>
              reach n (fst (store_getConfig r h)) (length h) = [length h])
         \<and> (activePowerUp_ref r = Some a \<and> flat (h ! a) \<longrightarrow>
              reach n (fst (store_getActivePowerUp r h)) (length h) = [length h])"
    using roots(4,5,7)
    by (auto simp: store_getStats_def store_getConfig_def store_getActivePowerUp_def
          flat_copy_reach)
  show ?thesis
    using view copies flats by blast
qed

theorem snapshot_top_level_copy_witness:
  "wf_engine demo_refs demo_heap
   \<and> store_getSnake demo_refs demo_heap = (demo_heap @ [demo_heap ! 0], JRef 10)
   \<and> engine_view demo_refs
        (fold apply_write [SetProp 10 ''length'' (JNum 99), SetProp 10 ''segments'' JNull]
           (fst (store_getSnake demo_refs demo_heap)))
      = engine_view demo_refs demo_heap
   \<and> reach 4 (fst (store_getStats demo_refs demo_heap)) 10 = [10]
   \<and> reach 4 (fst (store_getConfig demo_refs demo_heap)) 10 = [10]
   \<and> wf_engine active_refs active_heap
   \<and> store_getActivePowerUp active_refs active_heap = (active_heap @ [active_heap ! 10], JRef 11)
   \<and> reach 4 (fst (store_getActivePowerUp active_refs active_heap)) 11 = [11]"
proof -
  let ?ws = "[SetProp 10 ''length'' (JNum 99), SetProp 10 ''segments'' JNull]"
  have wf: "wf_engine demo_refs demo_heap"
    by (simp add: wf_engine_def closed_heap_def engine_roots_def demo_refs_def demo_heap_def)
  have len: "length demo_heap = 10"
    by (simp add: demo_heap_def)
  have sr: "snake_ref demo_refs = 0"
    by (simp add: demo_refs_def)
  have fl: "flat (demo_heap ! stats_ref demo_refs)" "flat (demo_heap ! config_ref demo_refs)"
    by (simp_all add: flat_def demo_refs_def demo_heap_def)
  have g: "store_getSnake \<in> set snapshot_getters"
    by (simp add: snapshot_getters_def)
  have ws: "list_all (\<lambda>w. JRef (write_target w) = snd (store_getSnake demo_refs demo_heap)) ?ws"
    by (simp add: store_getSnake_def spread_copy_def demo_refs_def len)
  from snapshot_top_level_copy [OF wf, where g = store_getSnake and n = 4 and a = 0
      and ws = ?ws] g ws fl
  have d: "store_getSnake demo_refs demo_heap
          = (demo_heap @ [demo_heap ! snake_ref demo_refs], JRef (length demo_heap))"
    "engine_view demo_refs (fold apply_write ?ws (fst (store_getSnake demo_refs demo_heap)))
          = engine_view demo_refs demo_heap"
    "reach 4 (fst (store_getStats demo_refs demo_heap)) (length demo_heap)
          = [length demo_heap]"
    "reach 4 (fst (store_getConfig demo_refs demo_heap)) (length demo_heap)
          = [length demo_heap]"
    by blast+
  have wfa: "wf_engine active_refs active_heap"
    by (simp add: wf_engine_def closed_heap_def engine_roots_def active_refs_def
          active_heap_def demo_refs_def demo_heap_def)
  have lena: "length active_heap = 11"
    by (simp add: active_heap_def len)
  have ar: "activePowerUp_ref active_refs = Some 10"
    by (simp add: active_refs_def)
  have fla: "flat (active_heap ! 10)"
    by (simp add: flat_def active_heap_def demo_heap_def)
  from snapshot_top_level_copy [OF wfa, where g = store_getSnake and n = 4 and a = 10
      and ws = "[]"] ar fla
  have a: "store_getActivePowerUp active_refs active_heap
          = (case activePowerUp_ref active_refs of None \<Rightarrow> (active_heap, JNull)
             | Some a \<Rightarrow> (active_heap @ [active_heap ! a], JRef (length active_heap)))"
    "reach 4 (fst (store_getActivePowerUp active_refs active_heap)) (length active_heap)
          = [length active_heap]"
    by blast+
  have a': "store_getActivePowerUp active_refs active_heap
              = (active_heap @ [active_heap ! 10], JRef 11)"
    "reach 4 (fst (store_getActivePowerUp active_refs active_heap)) 11 = [11]"
    using a by (simp_all only: ar lena option.case)
  from d wf have "wf_engine demo_refs demo_heap
   \<and> store_getSnake demo_refs demo_heap = (demo_heap @ [demo_heap ! 0], JRef 10)
   \<and> engine_view demo_refs (fold apply_write ?ws (fst (store_getSnake demo_refs demo_heap)))
      = engine_view demo_refs demo_heap
   \<and> reach 4 (fst (store_getStats demo_refs demo_heap)) 10 = [10]
   \<and> reach 4 (fst (store_getConfig demo_refs demo_heap)) 10 = [10]"
    unfolding len sr by blast
  with wfa a' show ?thesis
    by blast
qed

text \<open>
  As the claim states it, it fails: the snapshot of the snake holds the reference to the
  engine's own segments array, and \<^verbatim>\<open>snapshot.segments.pop()\<close> removes a segment of the
  engine's snake.
\<close>

theorem snapshot_independence_counterexample:
  "snd (store_getSnake demo_refs demo_heap) = JRef 10
   \<and> 1 \<in> set (reach 4 (fst (store_getSnake demo_refs demo_heap)) 10)
   \<and> engine_view demo_refs (apply_write (Pop 1) (fst (store_getSnake demo_refs demo_heap)))
       \<noteq> engine_view demo_refs demo_heap"
  by (simp add: store_getSnake_def spread_copy_def demo_refs_def demo_heap_def engine_view_def
        engine_roots_def apply_write_def eval_nat_numeral)

end
